theory Spec2Isabelle
  imports Complex_Main "HOL-Library.Char_ord" "HOL-Library.List_Lexorder" "HOL-Library.Sublist"
begin

section \<open>Calendar dates\<close>

text \<open>
  The program computes with \<^verbatim>\<open>datetime.date\<close> values. A date is modelled by its
  proleptic Gregorian ordinal (\<^verbatim>\<open>date.toordinal()\<close>, day 1 is 0001-01-01), adding a
  \<^verbatim>\<open>timedelta(days=k)\<close> is integer addition and \<^verbatim>\<open>(a - b).days\<close> is integer
  subtraction. The functions below follow the helpers of the standard \<^verbatim>\<open>datetime\<close>
  module that turn a year, month and day into an ordinal and back; the upper end of the
  module's range (year 9999) is not part of the model.
\<close>

type_synonym date = int

definition is_leap :: "int \<Rightarrow> bool" where
  "is_leap year = (year mod 4 = 0 \<and> (year mod 100 \<noteq> 0 \<or> year mod 400 = 0))"

definition days_before_year :: "int \<Rightarrow> int" where
  "days_before_year year =
     (let y = year - 1 in y * 365 + y div 4 - y div 100 + y div 400)"

definition days_in_month_tbl :: "int list" where
  "days_in_month_tbl = [31, 28, 31, 30, 31, 30, 31, 31, 30, 31, 30, 31]"

definition days_before_month_tbl :: "int list" where
  "days_before_month_tbl = [0, 31, 59, 90, 120, 151, 181, 212, 243, 273, 304, 334]"

definition days_before_month :: "int \<Rightarrow> nat \<Rightarrow> int" where
  "days_before_month year month =
     days_before_month_tbl ! (month - 1) + (if month > 2 \<and> is_leap year then 1 else 0)"

definition ymd2ord :: "int \<Rightarrow> nat \<Rightarrow> int \<Rightarrow> date" where
  "ymd2ord year month day = days_before_year year + days_before_month year month + day"

text \<open>\<^verbatim>\<open>_ord2ymd\<close>: the inverse, by the 400/100/4/1-year cycles.\<close>

definition ord2ymd :: "date \<Rightarrow> int \<times> nat \<times> int" where
  "ord2ymd n0 =
     (let n = n0 - 1;
          n400 = n div 146097; n = n mod 146097;
          n100 = n div 36524; n = n mod 36524;
          n4 = n div 1461; n = n mod 1461;
          n1 = n div 365; n = n mod 365;
          year = n400 * 400 + 1 + n100 * 100 + n4 * 4 + n1
      in if n1 = 4 \<or> n100 = 4 then (year - 1, 12, 31)
         else
           (let leapyear = (n1 = 3 \<and> (n4 \<noteq> 24 \<or> n100 = 3));
                month = nat ((n + 50) div 32);
                preceding = days_before_month_tbl ! (month - 1)
                              + (if month > 2 \<and> leapyear then 1 else 0)
            in if preceding > n
               then (let month' = month - 1;
                         preceding' = preceding
                           - (days_in_month_tbl ! (month' - 1)
                              + (if month' = 2 \<and> leapyear then 1 else 0))
                     in (year, month', n - preceding' + 1))
               else (year, month, n - preceding + 1)))"

text \<open>\<^verbatim>\<open>date.weekday()\<close>: Monday is 0, Sunday is 6.\<close>

definition weekday :: "date \<Rightarrow> int" where
  "weekday d = (d + 6) mod 7"

text \<open>Decimal rendering of a natural number, as \<^verbatim>\<open>str\<close> and f-strings do.\<close>

definition digit_char :: "nat \<Rightarrow> char" where
  "digit_char d = ''0123456789'' ! d"

fun str_nat :: "nat \<Rightarrow> string" where
  "str_nat n = (if n < 10 then [digit_char n] else str_nat (n div 10) @ [digit_char (n mod 10)])"

declare str_nat.simps [simp del]

text \<open>\<^verbatim>\<open>'%02d'\<close>, as used by \<^verbatim>\<open>strftime('%m/%d')\<close>.\<close>

definition two_digits :: "nat \<Rightarrow> string" where
  "two_digits n = (if n < 10 then CHR ''0'' # str_nat n else str_nat n)"

definition strftime_md :: "date \<Rightarrow> string" where
  "strftime_md d =
     (case ord2ymd d of (y, m, dd) \<Rightarrow> two_digits m @ ''/'' @ two_digits (nat dd))"

section \<open>Competition calendar\<close>

definition COMPETITION_START :: date where
  "COMPETITION_START = ymd2ord 2025 8 11"

definition COMPETITION_END :: date where
  "COMPETITION_END = ymd2ord 2025 10 5"

definition COMPETITION_WEEKS :: nat where
  "COMPETITION_WEEKS = 8"

record week_desc =
  wk_week :: nat
  wk_start :: date
  wk_end :: date
  wk_label :: string

text \<open>
  The body of the \<^verbatim>\<open>for week_num in range(1, COMPETITION_WEEKS + 1)\<close> loop of
  \<^verbatim>\<open>get_competition_week_dates\<close>; the list argument is what is left of the range,
  the date is \<^verbatim>\<open>current_monday\<close>. The loop leaves by \<^verbatim>\<open>break\<close> once the next
  Monday is past the competition end.
\<close>

fun week_loop :: "nat list \<Rightarrow> date \<Rightarrow> week_desc list" where
  "week_loop [] current_monday = []"
| "week_loop (week_num # rest) current_monday =
     (let sunday = (if current_monday + 6 > COMPETITION_END then COMPETITION_END
                    else current_monday + 6);
          w = \<lparr> wk_week = week_num, wk_start = current_monday, wk_end = sunday,
                wk_label = ''Week '' @ str_nat week_num @ '' ('' @ strftime_md current_monday
                           @ '' - '' @ strftime_md sunday @ '')'' \<rparr>
      in if current_monday + 7 > COMPETITION_END then [w]
         else w # week_loop rest (current_monday + 7))"

definition get_competition_week_dates :: "week_desc list" where
  "get_competition_week_dates = week_loop [1 ..< COMPETITION_WEEKS + 1] COMPETITION_START"

text \<open>\<^verbatim>\<open>get_current_competition_week\<close>; the argument is \<^verbatim>\<open>datetime.now().date()\<close>.\<close>

definition get_current_competition_week :: "date \<Rightarrow> nat \<times> string" where
  "get_current_competition_week today =
     (if today < COMPETITION_START then (0, ''Pre-Competition'')
      else if today > COMPETITION_END then (COMPETITION_WEEKS + 1, ''Post-Competition'')
      else
        (let days_since_start = today - COMPETITION_START;
             current_week = nat (days_since_start div 7) + 1
         in if current_week > COMPETITION_WEEKS
            then (COMPETITION_WEEKS + 1, ''Post-Competition'')
            else (current_week, ''Week '' @ str_nat current_week)))"

text \<open>\<^verbatim>\<open>get_current_competition_week_dates\<close>, again with today's date as argument.\<close>

definition get_current_competition_week_dates :: "date \<Rightarrow> date \<times> date" where
  "get_current_competition_week_dates today =
     (if today < COMPETITION_START \<or> today > COMPETITION_END
      then (let monday = today - weekday today; sunday = monday + 6 in (monday, sunday))
      else
        (let days_since_start = today - COMPETITION_START;
             current_week_num = days_since_start div 7;
             monday = COMPETITION_START + current_week_num * 7;
             sunday = monday + 6
         in (monday, if sunday > COMPETITION_END then COMPETITION_END else sunday)))"

text \<open>Checks on a week list, used to state the calendar's ordering.\<close>

fun weeks_contiguous :: "week_desc list \<Rightarrow> bool" where
  "weeks_contiguous (a # b # ws) = (wk_start b = wk_end a + 1 \<and> weeks_contiguous (b # ws))"
| "weeks_contiguous ws = True"

fun weeks_increasing :: "week_desc list \<Rightarrow> bool" where
  "weeks_increasing (a # b # ws) =
     (wk_start a < wk_start b \<and> wk_end a < wk_start b \<and> weeks_increasing (b # ws))"
| "weeks_increasing ws = True"

fun weeks_wellformed :: "week_desc list \<Rightarrow> bool" where
  "weeks_wellformed [] = True"
| "weeks_wellformed (a # ws) = (wk_start a \<le> wk_end a \<and> weeks_wellformed ws)"

lemma COMPETITION_START_ord: "COMPETITION_START = 739474"
  by (simp add: COMPETITION_START_def ymd2ord_def days_before_year_def days_before_month_def
        days_before_month_tbl_def is_leap_def)

lemma COMPETITION_END_ord: "COMPETITION_END = 739529"
  by (simp add: COMPETITION_END_def ymd2ord_def days_before_year_def days_before_month_def
        days_before_month_tbl_def is_leap_def)

section \<open>Python values\<close>

text \<open>Exceptions the modelled code can raise.\<close>

datatype py_error = AttributeError | KeyError

text \<open>
  \<^verbatim>\<open>str.startswith\<close>, \<^verbatim>\<open>str.endswith\<close>, the slices \<^verbatim>\<open>s[k:]\<close> and \<^verbatim>\<open>s[k:-1]\<close>, and
  \<^verbatim>\<open>str.strip()\<close> (on the ASCII white space characters).
\<close>

definition startswith :: "string \<Rightarrow> string \<Rightarrow> bool" where
  "startswith s p = (take (length p) s = p)"

definition endswith :: "string \<Rightarrow> string \<Rightarrow> bool" where
  "endswith s p = (length p \<le> length s \<and> drop (length s - length p) s = p)"

definition slice_from :: "nat \<Rightarrow> string \<Rightarrow> string" where
  "slice_from k s = drop k s"

definition slice_inner :: "nat \<Rightarrow> string \<Rightarrow> string" where
  "slice_inner k s = butlast (drop k s)"

definition is_space :: "char \<Rightarrow> bool" where
  "is_space c = (of_char c \<in> {9, 10, 11, 12, 13, 28, 29, 30, 31, 32 :: nat})"

definition strip :: "string \<Rightarrow> string" where
  "strip s = dropWhile is_space (rev (dropWhile is_space (rev s)))"

text \<open>The two quote characters, which the wrapper forms of the store contain.\<close>

definition squote :: string where
  "squote = [CHR 0x27]"

definition dquote :: string where
  "dquote = [CHR 0x22]"

text \<open>A JSON value that may be null, formatted by an f-string.\<close>

definition fmt :: "string option \<Rightarrow> string" where
  "fmt v = (case v of None \<Rightarrow> ''None'' | Some s \<Rightarrow> s)"

section \<open>Record normalisation\<close>

text \<open>
  \<^verbatim>\<open>clean_field\<close> of \<^verbatim>\<open>fetch_activities_by_date_range\<close>, in its two steps: the
  chain that removes the \<^verbatim>\<open>root=\<close> wrappers and computes \<^verbatim>\<open>cleaned\<close>, and the
  replacements applied to it. A value that is not a string (\<open>None\<close> here) is returned
  as it is.
\<close>

definition unwrap_root :: "string \<Rightarrow> string" where
  "unwrap_root value =
     (if startswith value (''root='' @ squote) \<and> endswith value squote then slice_inner 6 value
      else if startswith value (''root='' @ dquote) \<and> endswith value dquote then slice_inner 6 value
      else if startswith value ''root='' then
        (let cleaned = slice_from 5 value
         in if startswith cleaned squote \<and> endswith cleaned squote then slice_inner 1 cleaned
            else if startswith cleaned dquote \<and> endswith cleaned dquote then slice_inner 1 cleaned
            else cleaned)
      else value)"

definition clean_field :: "string option \<Rightarrow> string option" where
  "clean_field v =
     (case v of
        None \<Rightarrow> None
      | Some value \<Rightarrow>
          (let cleaned = unwrap_root value
           in if cleaned = ''Ride'' then Some ''Peloton''
              else if cleaned = ''Run'' then Some ''Run''
              else Some cleaned))"

section \<open>Data frames\<close>

text \<open>
  A \<^verbatim>\<open>pandas.DataFrame\<close> is its column names and its rows; a cell that is null
  (\<^verbatim>\<open>None\<close>, \<^verbatim>\<open>NaN\<close>) is \<open>None\<close>. The cell of a row under a column the frame does
  not have is never read. \<^verbatim>\<open>pd.DataFrame()\<close> is \<open>empty_frame\<close>, and \<^verbatim>\<open>df.empty\<close>
  holds when either axis has length zero.
\<close>

record 'r frame =
  columns :: "string list"
  rows :: "'r list"

definition empty_frame :: "'r frame" where
  "empty_frame = \<lparr> columns = [], rows = [] \<rparr>"

definition df_empty :: "'r frame \<Rightarrow> bool" where
  "df_empty df = (columns df = [] \<or> rows df = [])"

text \<open>
  \<^verbatim>\<open>drop_duplicates(subset=[key], keep='first')\<close>: rows are visited in order, and a
  row is kept when its key has not been seen before. Null keys are equal to each other.
\<close>

fun drop_duplicates_seen :: "('r \<Rightarrow> 'k) \<Rightarrow> 'k list \<Rightarrow> 'r list \<Rightarrow> 'r list" where
  "drop_duplicates_seen key seen [] = []"
| "drop_duplicates_seen key seen (x # xs) =
     (if key x \<in> set seen then drop_duplicates_seen key seen xs
      else x # drop_duplicates_seen key (key x # seen) xs)"

definition drop_duplicates :: "('r \<Rightarrow> 'k) \<Rightarrow> 'r list \<Rightarrow> 'r list" where
  "drop_duplicates key xs = drop_duplicates_seen key [] xs"

text \<open>\<^verbatim>\<open>df[df.duplicated(key, keep=False)]\<close>: every row whose key occurs more than once.\<close>

definition duplicated_rows :: "('r \<Rightarrow> 'k) \<Rightarrow> 'r list \<Rightarrow> 'r list" where
  "duplicated_rows key xs = filter (\<lambda>x. length (filter (\<lambda>y. key y = key x) xs) > 1) xs"

text \<open>\<^verbatim>\<open>Series.unique()\<close>: the values in order of first appearance.\<close>

definition unique :: "'a list \<Rightarrow> 'a list" where
  "unique xs = drop_duplicates (\<lambda>x. x) xs"

text \<open>\<^verbatim>\<open>fillna(0)\<close> on a numeric cell.\<close>

definition fillna0 :: "rat option \<Rightarrow> rat" where
  "fillna0 c = (case c of None \<Rightarrow> 0 | Some x \<Rightarrow> x)"

text \<open>
  \<^verbatim>\<open>round(0)\<close> rounds to the nearest whole number, a half to the even neighbour.
  Numbers are rationals here: the model computes the exact values that the program's
  floating point numbers approximate.
\<close>

definition round_half_even :: "rat \<Rightarrow> rat" where
  "round_half_even x =
     (let f = \<lfloor>x\<rfloor>; d = x - of_int f
      in if d < 1 / 2 then of_int f
         else if d > 1 / 2 then of_int (f + 1)
         else if even f then of_int f else of_int (f + 1))"

section \<open>Store records\<close>

record athlete =
  firstname :: "string option"
  lastname :: "string option"

text \<open>
  A row of the \<^verbatim>\<open>activities\<close> query, with the joined athlete under \<^verbatim>\<open>athletes\<close>,
  and the same row once \<^verbatim>\<open>athlete_name\<close> has replaced the join. \<^verbatim>\<open>start_date\<close> is
  the calendar day of the time stamp.
\<close>

record activity_raw =
  raw_id :: int
  raw_athletes :: "athlete option"
  raw_name :: "string option"
  raw_sport_type :: "string option"
  raw_start_date :: date
  raw_distance :: "rat option"
  raw_total_elevation_gain :: "rat option"

record activity =
  act_id :: int
  act_athlete_name :: string
  act_name :: "string option"
  act_sport_type :: "string option"
  act_start_date :: date
  act_distance :: "rat option"
  act_total_elevation_gain :: "rat option"

text \<open>The activity joined to a heart-rate-zone row, with its own joined athlete.\<close>

record hr_activity =
  ha_athlete_id :: "int option"
  ha_name :: "string option"
  ha_start_date :: "date option"
  ha_sport_type :: "string option"
  ha_athletes :: "athlete option"

text \<open>
  A row of the heart-rate-zone frame: the columns of the table, the joined
  \<^verbatim>\<open>activities\<close> object, and the five columns the fetch adds.
\<close>

record hr_row =
  activity_id :: "int option"
  zone_1_seconds :: "rat option"
  zone_2_seconds :: "rat option"
  zone_3_seconds :: "rat option"
  zone_4_seconds :: "rat option"
  zone_5_seconds :: "rat option"
  zone_1_time :: "rat option"
  zone_2_time :: "rat option"
  zone_3_time :: "rat option"
  zone_4_time :: "rat option"
  zone_5_time :: "rat option"
  activities :: "hr_activity option"
  athlete_id :: "int option"
  athlete_name :: "string option"
  activity_name :: "string option"
  start_date :: "date option"
  sport_type :: "string option"

section \<open>Fetching activities\<close>

text \<open>
  \<^verbatim>\<open>fetch_activities_by_date_range\<close> from \<^verbatim>\<open>response.data\<close> on: the athlete join is
  flattened (a row with no athlete gets the name \<^verbatim>\<open>Unknown\<close>), name and sport type
  are cleaned, a Peloton row with elevation gain becomes Bike, Tennis rows are removed.
  A null elevation gain compares false with \<^verbatim>\<open>> 0\<close>.
\<close>

definition flatten_activity :: "activity_raw \<Rightarrow> activity" where
  "flatten_activity r =
     \<lparr> act_id = raw_id r,
       act_athlete_name =
         (case raw_athletes r of
            Some x \<Rightarrow> fmt (firstname x) @ '' '' @ fmt (lastname x)
          | None \<Rightarrow> ''Unknown''),
       act_name = raw_name r,
       act_sport_type = raw_sport_type r,
       act_start_date = raw_start_date r,
       act_distance = raw_distance r,
       act_total_elevation_gain = raw_total_elevation_gain r \<rparr>"

definition clean_activity :: "activity \<Rightarrow> activity" where
  "clean_activity r =
     r\<lparr> act_name := clean_field (act_name r), act_sport_type := clean_field (act_sport_type r) \<rparr>"

definition positive_cell :: "rat option \<Rightarrow> bool" where
  "positive_cell c = (case c of None \<Rightarrow> False | Some x \<Rightarrow> x > 0)"

definition bike_or_peloton :: "activity \<Rightarrow> activity" where
  "bike_or_peloton r =
     (if act_sport_type r = Some ''Peloton'' \<and> positive_cell (act_total_elevation_gain r)
      then r\<lparr> act_sport_type := Some ''Bike'' \<rparr> else r)"

definition fetch_activities_by_date_range :: "activity_raw list \<Rightarrow> activity list" where
  "fetch_activities_by_date_range data =
     (if data = [] then []
      else filter (\<lambda>r. act_sport_type r \<noteq> Some ''Tennis'')
             (map (bike_or_peloton \<circ> clean_activity \<circ> flatten_activity) data))"

section \<open>Fetching heart-rate zones\<close>

text \<open>
  The cleaning of the activity name inside the loop of
  \<^verbatim>\<open>fetch_heart_rate_zones_by_date\<close>.
\<close>

definition hr_clean_activity_name :: "string option \<Rightarrow> string option" where
  "hr_clean_activity_name v =
     (case v of
        None \<Rightarrow> None
      | Some name_str \<Rightarrow>
          (if startswith name_str (''root='' @ squote) \<and> endswith name_str squote then
             (let cleaned = slice_inner 6 name_str
              in if cleaned = ''Ride'' then Some ''Peloton''
                 else if cleaned = ''Run'' then Some ''Treadmill''
                 else Some cleaned)
           else if startswith name_str ''root='' then
             (let cleaned = slice_from 5 name_str
              in if cleaned = ''Ride'' then Some ''Peloton''
                 else if cleaned = ''Run'' then Some ''Treadmill''
                 else Some cleaned)
           else Some name_str))"

text \<open>
  One turn of the loop over the rows: the five new columns start as null and are filled
  from the joined activity when there is one.
\<close>

definition flatten_hr_row :: "hr_row \<Rightarrow> hr_row" where
  "flatten_hr_row row =
     (let row0 = row\<lparr> athlete_id := None, athlete_name := None, activity_name := None,
                      start_date := None, sport_type := None \<rparr>
      in case activities row of
           None \<Rightarrow> row0
         | Some a \<Rightarrow>
             row0\<lparr> athlete_id := ha_athlete_id a,
                   activity_name := hr_clean_activity_name (ha_name a),
                   start_date := ha_start_date a,
                   sport_type := ha_sport_type a,
                   athlete_name :=
                     (case ha_athletes a of
                        None \<Rightarrow> None
                      | Some athlete \<Rightarrow>
                          Some (strip (fmt (firstname athlete) @ '' '' @ fmt (lastname athlete)))) \<rparr>)"

definition drop_activities_column :: "hr_row \<Rightarrow> hr_row" where
  "drop_activities_column row = row\<lparr> activities := None \<rparr>"

definition fetch_heart_rate_zones_by_date :: "hr_row frame \<Rightarrow> hr_row frame" where
  "fetch_heart_rate_zones_by_date response =
     (if rows response = [] then empty_frame
      else
        (let cols = removeAll ''activities''
                      (columns response @
                         filter (\<lambda>c. c \<notin> set (columns response))
                           [''athlete_id'', ''athlete_name'', ''activity_name'',
                            ''start_date'', ''sport_type'']);
             df = map (drop_activities_column \<circ> flatten_hr_row) (rows response);
             df = filter (\<lambda>r. athlete_name r \<noteq> None) df;
             df = filter (\<lambda>r. sport_type r \<noteq> Some ''Tennis'') df;
             df = (if ''activity_id'' \<in> set cols \<and> length df > 0
                   then drop_duplicates activity_id df else df)
         in \<lparr> columns = cols, rows = df \<rparr>))"

text \<open>
  The rows of the fetch as they stand when the duplicate check is reached: flattened,
  with an athlete name, not Tennis.
\<close>

definition rows_before_dedup :: "hr_row frame \<Rightarrow> hr_row list" where
  "rows_before_dedup response =
     filter (\<lambda>r. sport_type r \<noteq> Some ''Tennis'')
       (filter (\<lambda>r. athlete_name r \<noteq> None)
          (map (drop_activities_column \<circ> flatten_hr_row) (rows response)))"

section \<open>Scoring engine\<close>

text \<open>The column names \<^verbatim>\<open>f'zone_{i}_seconds'\<close> and \<^verbatim>\<open>f'zone_{i}_time'\<close> and their cells.\<close>

definition zone_seconds_name :: "nat \<Rightarrow> string" where
  "zone_seconds_name i = ''zone_'' @ str_nat i @ ''_seconds''"

definition zone_time_name :: "nat \<Rightarrow> string" where
  "zone_time_name i = ''zone_'' @ str_nat i @ ''_time''"

definition zone_seconds_cell :: "nat \<Rightarrow> hr_row \<Rightarrow> rat option" where
  "zone_seconds_cell i r =
     (if i = 1 then zone_1_seconds r else if i = 2 then zone_2_seconds r
      else if i = 3 then zone_3_seconds r else if i = 4 then zone_4_seconds r
      else zone_5_seconds r)"

definition zone_time_cell :: "nat \<Rightarrow> hr_row \<Rightarrow> rat option" where
  "zone_time_cell i r =
     (if i = 1 then zone_1_time r else if i = 2 then zone_2_time r
      else if i = 3 then zone_3_time r else if i = 4 then zone_4_time r
      else zone_5_time r)"

text \<open>
  \<^verbatim>\<open>df.get(f'zone_{i}_seconds', df.get(f'zone_{i}_time', 0))\<close>: the seconds column when
  the frame has it, else the time column, else the integer \<open>0\<close>, which is \<open>None\<close> here
  because it is not a column.
\<close>

definition df_get_zone :: "string list \<Rightarrow> nat \<Rightarrow> (hr_row \<Rightarrow> rat option) option" where
  "df_get_zone cols i =
     (if zone_seconds_name i \<in> set cols then Some (zone_seconds_cell i)
      else if zone_time_name i \<in> set cols then Some (zone_time_cell i)
      else None)"

text \<open>
  The \<^verbatim>\<open>zone_points\<close> column. \<^verbatim>\<open>.fillna(0)\<close> is called on what \<^verbatim>\<open>df.get\<close> returned;
  on the integer default that call raises \<^verbatim>\<open>AttributeError\<close>.
\<close>

definition zone_points_column :: "string list \<Rightarrow> py_error + (hr_row \<Rightarrow> rat)" where
  "zone_points_column cols =
     (case (df_get_zone cols 1, df_get_zone cols 2, df_get_zone cols 3,
            df_get_zone cols 4, df_get_zone cols 5) of
        (Some z1, Some z2, Some z3, Some z4, Some z5) \<Rightarrow>
          Inr (\<lambda>r. fillna0 (z1 r) / 60 * 1 + fillna0 (z2 r) / 60 * 2 + fillna0 (z3 r) / 60 * 3
                   + fillna0 (z4 r) / 60 * 4 + fillna0 (z5 r) / 60 * 5)
      | _ \<Rightarrow> Inl AttributeError)"

text \<open>
  The duplicate check of \<^verbatim>\<open>calculate_hr_zone_points\<close>: when the frame has an
  \<^verbatim>\<open>activity_id\<close> column and some identifier occurs twice, only the first row of each
  identifier stays.
\<close>

definition remove_duplicate_activities :: "hr_row frame \<Rightarrow> hr_row frame" where
  "remove_duplicate_activities df =
     (if ''activity_id'' \<in> set (columns df)
      then (if duplicated_rows activity_id (rows df) \<noteq> []
            then df\<lparr> rows := drop_duplicates activity_id (rows df) \<rparr> else df)
      else df)"

text \<open>A row of the result: the athlete (the index of the frame) and the aggregates.\<close>

record athlete_points =
  ap_athlete_name :: string
  zone_points :: rat
  activity_count :: nat
  zone_sums :: "(string \<times> rat) list"

text \<open>
  The entries of \<^verbatim>\<open>agg_dict\<close> for the zone columns the frame has, summed over a group
  (a sum skips null cells).
\<close>

definition zone_sum_columns :: "string list \<Rightarrow> hr_row list \<Rightarrow> (string \<times> rat) list" where
  "zone_sum_columns cols grp =
     concat (map (\<lambda>i.
        if zone_seconds_name i \<in> set cols
        then [(zone_seconds_name i, sum_list (map (fillna0 \<circ> zone_seconds_cell i) grp))]
        else if zone_time_name i \<in> set cols
        then [(zone_time_name i, sum_list (map (fillna0 \<circ> zone_time_cell i) grp))]
        else []) [1 ..< 6])"

text \<open>
  \<^verbatim>\<open>df.groupby('athlete_name').agg(agg_dict)\<close>: one row per athlete name, the names in
  ascending order (\<^verbatim>\<open>groupby\<close> sorts its keys; rows with a null name form no group),
  the points summed and the non-null activity identifiers counted.
\<close>

definition group_keys :: "hr_row list \<Rightarrow> string list" where
  "group_keys rs = sort (remdups (List.map_filter athlete_name rs))"

definition group_rows :: "hr_row list \<Rightarrow> string \<Rightarrow> hr_row list" where
  "group_rows rs k = filter (\<lambda>r. athlete_name r = Some k) rs"

definition groupby_agg :: "string list \<Rightarrow> (hr_row \<Rightarrow> rat) \<Rightarrow> hr_row list \<Rightarrow> athlete_points list" where
  "groupby_agg cols pts rs =
     map (\<lambda>k. let grp = group_rows rs k in
            \<lparr> ap_athlete_name = k,
              zone_points = sum_list (map pts grp),
              activity_count = length (filter (\<lambda>r. activity_id r \<noteq> None) grp),
              zone_sums = zone_sum_columns cols grp \<rparr>)
         (group_keys rs)"

definition round_points :: "athlete_points \<Rightarrow> athlete_points" where
  "round_points p =
     p\<lparr> zone_points := round_half_even (zone_points p),
        zone_sums := map (\<lambda>(c, v). (c, round_half_even v)) (zone_sums p) \<rparr>"

text \<open>
  \<^verbatim>\<open>sort_values('zone_points', ascending=False)\<close>. pandas reverses the rows, sorts
  them ascending and reverses the result; the sort is taken to be stable, which the
  default sort of the library is on the short frames of this program.
\<close>

definition sort_values_desc :: "athlete_points list \<Rightarrow> athlete_points list" where
  "sort_values_desc ps = rev (sort_key zone_points (rev ps))"

text \<open>
  The rows that are scored: those with an athlete name, after the duplicate check.
  \<open>None\<close> when the function returns its empty frame before scoring.
\<close>

definition scored_frame :: "hr_row frame \<Rightarrow> hr_row frame option" where
  "scored_frame df =
     (if df_empty df \<or> ''athlete_name'' \<notin> set (columns df) then None
      else
        (let df1 = df\<lparr> rows := filter (\<lambda>r. athlete_name r \<noteq> None) (rows df) \<rparr>
         in if df_empty df1 then None else Some (remove_duplicate_activities df1)))"

text \<open>
  The grouped frame of \<^verbatim>\<open>calculate_hr_zone_points\<close> as \<^verbatim>\<open>agg\<close> returns it, before
  \<^verbatim>\<open>.round(0)\<close> and the sort. Aggregating needs the \<^verbatim>\<open>activity_id\<close> column: without it
  \<^verbatim>\<open>agg\<close> raises \<^verbatim>\<open>KeyError\<close>.
\<close>

definition grouped_points :: "hr_row frame \<Rightarrow> py_error + athlete_points list" where
  "grouped_points df =
     (case scored_frame df of
        None \<Rightarrow> Inr []
      | Some df2 \<Rightarrow>
          (case zone_points_column (columns df2) of
             Inl e \<Rightarrow> Inl e
           | Inr pts \<Rightarrow>
               if ''activity_id'' \<notin> set (columns df2) then Inl KeyError
               else Inr (groupby_agg (columns df2) pts (rows df2))))"

definition calculate_hr_zone_points :: "hr_row frame \<Rightarrow> py_error + athlete_points list" where
  "calculate_hr_zone_points df =
     (case grouped_points df of
        Inl e \<Rightarrow> Inl e
      | Inr athlete_points \<Rightarrow> Inr (sort_values_desc (map round_points athlete_points)))"

text \<open>
  Multiplying every zone-time cell of a row by two, and doing so on the rows of one
  athlete of a frame.
\<close>

definition double_cell :: "rat option \<Rightarrow> rat option" where
  "double_cell c = map_option (\<lambda>x. 2 * x) c"

definition double_zones :: "hr_row \<Rightarrow> hr_row" where
  "double_zones r =
     r\<lparr> zone_1_seconds := double_cell (zone_1_seconds r),
        zone_2_seconds := double_cell (zone_2_seconds r),
        zone_3_seconds := double_cell (zone_3_seconds r),
        zone_4_seconds := double_cell (zone_4_seconds r),
        zone_5_seconds := double_cell (zone_5_seconds r),
        zone_1_time := double_cell (zone_1_time r),
        zone_2_time := double_cell (zone_2_time r),
        zone_3_time := double_cell (zone_3_time r),
        zone_4_time := double_cell (zone_4_time r),
        zone_5_time := double_cell (zone_5_time r) \<rparr>"

definition double_if :: "string \<Rightarrow> hr_row \<Rightarrow> hr_row" where
  "double_if a r = (if athlete_name r = Some a then double_zones r else r)"

definition double_athlete :: "string \<Rightarrow> hr_row frame \<Rightarrow> hr_row frame" where
  "double_athlete a df = df\<lparr> rows := map (double_if a) (rows df) \<rparr>"

text \<open>A row whose zone-time cells are all zero or null.\<close>

definition zero_zones :: "hr_row \<Rightarrow> bool" where
  "zero_zones r =
     list_all (\<lambda>i. fillna0 (zone_seconds_cell i r) = 0 \<and> fillna0 (zone_time_cell i r) = 0)
       [1 ..< 6]"

section \<open>Streaks\<close>

text \<open>
  The inner loop of \<^verbatim>\<open>calculate_athlete_streaks\<close> over \<^verbatim>\<open>athlete_dates.iloc[1:]\<close>,
  with \<^verbatim>\<open>expected_date\<close> and \<^verbatim>\<open>current_streak\<close>; it leaves at the first gap.
\<close>

fun streak_loop :: "date list \<Rightarrow> date \<Rightarrow> nat \<Rightarrow> nat" where
  "streak_loop [] expected_date current_streak = current_streak"
| "streak_loop (activity_date # ds) expected_date current_streak =
     (if activity_date = expected_date
      then streak_loop ds (expected_date - 1) (current_streak + 1)
      else current_streak)"

text \<open>The body of the loop over the athletes, given the athlete's dates.\<close>

definition athlete_streak :: "date \<Rightarrow> date list \<Rightarrow> nat" where
  "athlete_streak today athlete_dates =
     (case athlete_dates of
        [] \<Rightarrow> 0
      | latest_activity # ds \<Rightarrow>
          (let days_since_last = today - latest_activity
           in if days_since_last > 1 then 0
              else streak_loop ds (latest_activity - 1) 1))"

text \<open>
  \<^verbatim>\<open>df[df['athlete_name'] == athlete]['date'].drop_duplicates().sort_values(ascending=False)\<close>
\<close>

definition athlete_dates_of :: "activity list \<Rightarrow> string \<Rightarrow> date list" where
  "athlete_dates_of rs a =
     rev (sort (unique (map act_start_date (filter (\<lambda>r. act_athlete_name r = a) rs))))"

text \<open>
  \<^verbatim>\<open>calculate_athlete_streaks\<close>; the first argument is \<^verbatim>\<open>datetime.now().date()\<close>. The
  result dictionary is the list of its items in insertion order.
\<close>

definition calculate_athlete_streaks :: "date \<Rightarrow> activity frame \<Rightarrow> py_error + (string \<times> nat) list" where
  "calculate_athlete_streaks today df =
     (if df_empty df then Inr []
      else if ''start_date'' \<notin> set (columns df) then Inl KeyError
      else if ''athlete_name'' \<notin> set (columns df) then Inr []
      else Inr (map (\<lambda>a. (a, athlete_streak today (athlete_dates_of (rows df) a)))
                  (unique (map act_athlete_name (rows df)))))"

text \<open>The set of dates on which an athlete has an activity.\<close>

definition activity_dates :: "activity list \<Rightarrow> string \<Rightarrow> date set" where
  "activity_dates rs a = act_start_date ` {r \<in> set rs. act_athlete_name r = a}"

section \<open>Example frames\<close>

text \<open>
  A row with every cell null, the columns of a fetched heart-rate-zone frame, and a
  scored row with an activity, an athlete and its seconds in zone 1.
\<close>

definition hr_row0 :: hr_row where
  "hr_row0 =
     \<lparr> activity_id = None,
       zone_1_seconds = None, zone_2_seconds = None, zone_3_seconds = None,
       zone_4_seconds = None, zone_5_seconds = None,
       zone_1_time = None, zone_2_time = None, zone_3_time = None,
       zone_4_time = None, zone_5_time = None,
       activities = None, athlete_id = None, athlete_name = None, activity_name = None,
       start_date = None, sport_type = None \<rparr>"

definition hr_columns :: "string list" where
  "hr_columns =
     [''activity_id'', ''zone_1_seconds'', ''zone_2_seconds'', ''zone_3_seconds'',
      ''zone_4_seconds'', ''zone_5_seconds'', ''athlete_id'', ''athlete_name'',
      ''activity_name'', ''start_date'', ''sport_type'']"

definition scored_row :: "int \<Rightarrow> string \<Rightarrow> rat \<Rightarrow> hr_row" where
  "scored_row aid name z1 =
     hr_row0\<lparr> activity_id := Some aid, athlete_name := Some name, zone_1_seconds := Some z1,
              zone_2_seconds := Some 0, zone_3_seconds := Some 0, zone_4_seconds := Some 0,
              zone_5_seconds := Some 0 \<rparr>"

definition dup_frame :: "hr_row frame" where
  "dup_frame =
     \<lparr> columns = hr_columns,
       rows = [scored_row 1 ''Ann'' 600, scored_row 1 ''Ann'' 900, scored_row 2 ''Bob'' 60] \<rparr>"


text \<open>
  A frame with the columns of a fetched heart-rate-zone frame, and a frame that has the
  column of zone 1 only.
\<close>

definition points_frame :: "hr_row list \<Rightarrow> hr_row frame" where
  "points_frame rs = \<lparr> columns = hr_columns, rows = rs \<rparr>"

definition no_zone2_frame :: "hr_row frame" where
  "no_zone2_frame =
     \<lparr> columns = [''activity_id'', ''athlete_name'', ''zone_1_seconds''],
       rows = [scored_row 1 ''Ann'' 600] \<rparr>"

text \<open>
  Two athletes with 40 and 60 seconds in zone 1, and a frame whose zone times are zero
  or null.
\<close>

definition small_frame :: "hr_row frame" where
  "small_frame = points_frame [scored_row 1 ''Ann'' 40, scored_row 2 ''Bob'' 60]"

definition zero_frame :: "hr_row frame" where
  "zero_frame =
     points_frame [scored_row 1 ''Ann'' 0,
                   hr_row0\<lparr> activity_id := Some 2, athlete_name := Some ''Bob'' \<rparr>]"



text \<open>
  An activity whose athlete join is empty, a heart-rate-zone row with its joined
  activity, and a fetched response of three rows: one resolvable, one with no athlete,
  one with no activity.
\<close>

definition orphan_activity :: activity_raw where
  "orphan_activity =
     \<lparr> raw_id = 7, raw_athletes = None, raw_name = Some ''Morning Ride'',
       raw_sport_type = Some ''Ride'', raw_start_date = 739475,
       raw_distance = Some 16093, raw_total_elevation_gain = Some 0 \<rparr>"

definition joined_row :: "int \<Rightarrow> athlete option \<Rightarrow> hr_row" where
  "joined_row aid ath =
     hr_row0\<lparr> activity_id := Some aid, zone_1_seconds := Some 600,
       activities := Some \<lparr> ha_athlete_id = Some 3, ha_name = Some ''root=Run'',
                            ha_start_date = Some 739475, ha_sport_type = Some ''Run'',
                            ha_athletes = ath \<rparr> \<rparr>"

definition hr_response :: "hr_row frame" where
  "hr_response =
     \<lparr> columns = [''activity_id'', ''zone_1_seconds'', ''activities''],
       rows = [joined_row 1 (Some \<lparr> firstname = Some ''Ann'', lastname = Some ''Lee'' \<rparr>),
               joined_row 2 None,
               hr_row0\<lparr> activity_id := Some 3 \<rparr>] \<rparr>"

text \<open>A fetched response in which two rows carry the same activity identifier.\<close>

definition dup_response :: "hr_row frame" where
  "dup_response =
     \<lparr> columns = [''activity_id'', ''zone_1_seconds'', ''activities''],
       rows = [joined_row 1 (Some \<lparr> firstname = Some ''Ann'', lastname = Some ''Lee'' \<rparr>),
               (joined_row 1 (Some \<lparr> firstname = Some ''Ann'', lastname = Some ''Lee'' \<rparr>))
                 \<lparr> zone_1_seconds := Some 900 \<rparr>,
               joined_row 2 (Some \<lparr> firstname = Some ''Bob'', lastname = Some ''Ray'' \<rparr>)] \<rparr>"

text \<open>
  The same stored activity as both queries return it: its sport type is the wrapped
  value \<^verbatim>\<open>root='Tennis'\<close> and its name the wrapped value \<^verbatim>\<open>root=Run\<close>.
\<close>

definition tennis_activity :: activity_raw where
  "tennis_activity =
     \<lparr> raw_id = 9,
       raw_athletes = Some \<lparr> firstname = Some ''Ann'', lastname = Some ''Lee'' \<rparr>,
       raw_name = Some ''root=Run'',
       raw_sport_type = Some (''root='' @ squote @ ''Tennis'' @ squote),
       raw_start_date = 739475, raw_distance = Some 0, raw_total_elevation_gain = Some 0 \<rparr>"

definition tennis_response :: "hr_row frame" where
  "tennis_response =
     \<lparr> columns = [''activity_id'', ''zone_1_seconds'', ''activities''],
       rows = [hr_row0\<lparr> activity_id := Some 9, zone_1_seconds := Some 600,
                 activities := Some \<lparr> ha_athlete_id = Some 3, ha_name = Some ''root=Run'',
                   ha_start_date = Some 739475,
                   ha_sport_type = Some (''root='' @ squote @ ''Tennis'' @ squote),
                   ha_athletes = Some \<lparr> firstname = Some ''Ann'', lastname = Some ''Lee'' \<rparr> \<rparr> \<rparr>] \<rparr>"

text \<open>An activity of an athlete on a day, and a frame of six activities of two athletes.\<close>

definition activity_on :: "string \<Rightarrow> date \<Rightarrow> activity" where
  "activity_on a d =
     \<lparr> act_id = d, act_athlete_name = a, act_name = Some ''Morning Run'',
       act_sport_type = Some ''Run'', act_start_date = d, act_distance = Some 5000,
       act_total_elevation_gain = Some 0 \<rparr>"

definition streak_frame :: "activity frame" where
  "streak_frame =
     \<lparr> columns = [''id'', ''athlete_name'', ''name'', ''sport_type'', ''start_date'',
                  ''distance'', ''total_elevation_gain''],
       rows = [activity_on ''Ann'' 100, activity_on ''Bob'' 97, activity_on ''Ann'' 98,
               activity_on ''Ann'' 99, activity_on ''Ann'' 96, activity_on ''Ann'' 99] \<rparr>"

section \<open>Properties of the competition calendar\<close>

lemma week_loop_start:
  "week_loop (n # ns) m \<noteq> [] \<and> wk_start (hd (week_loop (n # ns) m)) = m"
  by (simp add: Let_def)

lemma week_loop_contiguous: "weeks_contiguous (week_loop ns m)"
proof (induction ns arbitrary: m)
  case Nil
  show ?case by simp
next
  case (Cons n ns)
  show ?case
  proof (cases "m + 7 > COMPETITION_END \<or> ns = []")
    case True
    then show ?thesis by (auto simp: Let_def)
  next
    case False
    then obtain k ks where ns: "ns = k # ks" by (cases ns) auto
    from week_loop_start [of k ks "m + 7"]
    obtain w ws where tl: "week_loop ns (m + 7) = w # ws" and w: "wk_start w = m + 7"
      unfolding ns by (cases "week_loop (k # ks) (m + 7)") auto
    from Cons.IH [of "m + 7"] have "weeks_contiguous (w # ws)" by (simp add: tl)
    with False w tl show ?thesis by (simp add: Let_def)
  qed
qed

text \<open>
  C4. The weeks of the fixed configuration (11 August 2025 to 5 October 2025, eight
  weeks) are in strictly increasing order and do not overlap, each week starts the day
  after the week before it ended, all eight weeks are produced, and the last week ends no
  later than the competition end.
\<close>

theorem C4_week_dates_contiguous:
  "weeks_contiguous get_competition_week_dates
   \<and> weeks_increasing get_competition_week_dates
   \<and> weeks_wellformed get_competition_week_dates
   \<and> map wk_week get_competition_week_dates = [1, 2, 3, 4, 5, 6, 7, 8]
   \<and> wk_start (hd get_competition_week_dates) = COMPETITION_START
   \<and> wk_end (last get_competition_week_dates) \<le> COMPETITION_END"
  by (simp add: get_competition_week_dates_def COMPETITION_WEEKS_def COMPETITION_END_ord
        COMPETITION_START_ord upt_rec)

text \<open>
  C7. Before the competition start the current week is 0 with the label
  Pre-Competition; after the competition end it is the week count plus one with the
  label Post-Competition; on every day of the competition it is the number of whole
  weeks since the start plus one, with the label Week N.
\<close>

theorem C7_current_week:
  "(today < COMPETITION_START \<longrightarrow>
      get_current_competition_week today = (0, ''Pre-Competition''))
   \<and> (today > COMPETITION_END \<longrightarrow>
      get_current_competition_week today = (COMPETITION_WEEKS + 1, ''Post-Competition''))
   \<and> (COMPETITION_START \<le> today \<and> today \<le> COMPETITION_END \<longrightarrow>
      get_current_competition_week today =
        (nat ((today - COMPETITION_START) div 7) + 1,
         ''Week '' @ str_nat (nat ((today - COMPETITION_START) div 7) + 1)))"
  by (auto simp add: get_current_competition_week_def COMPETITION_WEEKS_def
        COMPETITION_END_ord COMPETITION_START_ord Let_def)

theorem C7_current_week_witness:
  "get_current_competition_week (ymd2ord 2025 8 10) = (0, ''Pre-Competition'')
   \<and> get_current_competition_week (ymd2ord 2025 10 6) = (9, ''Post-Competition'')
   \<and> get_current_competition_week (ymd2ord 2025 8 11) = (1, ''Week 1'')
   \<and> get_current_competition_week (ymd2ord 2025 8 18) = (2, ''Week 2'')
   \<and> get_current_competition_week (ymd2ord 2025 10 5) = (8, ''Week 8'')"
proof -
  have ords: "ymd2ord 2025 8 10 = 739473" "ymd2ord 2025 10 6 = 739530"
    "ymd2ord 2025 8 11 = 739474" "ymd2ord 2025 8 18 = 739481" "ymd2ord 2025 10 5 = 739529"
    by (simp_all add: ymd2ord_def days_before_year_def days_before_month_def
          days_before_month_tbl_def is_leap_def)
  have digits: "str_nat (Suc 0) = ''1''" "str_nat (Suc (Suc 0)) = ''2''" "str_nat 8 = ''8''"
    by (simp_all add: str_nat.simps digit_char_def)
  show ?thesis
    using C7_current_week [of 739473] C7_current_week [of 739530] C7_current_week [of 739474]
      C7_current_week [of 739481] C7_current_week [of 739529]
    by (simp add: ords digits COMPETITION_START_ord COMPETITION_END_ord COMPETITION_WEEKS_def)
qed

text \<open>
  C10. For every date, the bounds of the current week contain that date and span at most
  six days, inside the competition (also when the Sunday is clipped to the competition
  end) and outside it (calendar week).
\<close>

theorem C10_current_week_bounds:
  "(case get_current_competition_week_dates today of
      (monday, sunday) \<Rightarrow> monday \<le> today \<and> today \<le> sunday \<and> sunday - monday \<le> 6)"
  by (auto simp add: get_current_competition_week_dates_def weekday_def COMPETITION_END_ord
        COMPETITION_START_ord Let_def)

section \<open>Properties of deduplication\<close>

lemma dds_keys:
  "key ` set (drop_duplicates_seen key seen xs) = key ` set xs - set seen"
  by (induction xs arbitrary: seen) auto

lemma dds_distinct: "distinct (map key (drop_duplicates_seen key seen xs))"
  by (induction xs arbitrary: seen) (auto simp: dds_keys)

lemma dds_fixed:
  "distinct (map key ys) \<Longrightarrow> key ` set ys \<inter> set seen = {} \<Longrightarrow>
   drop_duplicates_seen key seen ys = ys"
  by (induction ys arbitrary: seen) auto

lemma dds_find:
  "List.find (\<lambda>r. key r = k) (drop_duplicates_seen key seen xs) =
     (if k \<in> set seen then None else List.find (\<lambda>r. key r = k) xs)"
  by (induction xs arbitrary: seen) auto

lemma dds_subseq: "subseq (drop_duplicates_seen key seen xs) xs"
  by (induction xs arbitrary: seen) auto

lemma distinct_drop_duplicates: "distinct (map key (drop_duplicates key xs))"
  by (simp add: drop_duplicates_def dds_distinct)

lemma drop_duplicates_fixed: "distinct (map key ys) \<Longrightarrow> drop_duplicates key ys = ys"
  by (simp add: drop_duplicates_def dds_fixed)

lemma drop_duplicates_idem:
  "drop_duplicates key (drop_duplicates key xs) = drop_duplicates key xs"
  by (simp add: drop_duplicates_fixed distinct_drop_duplicates)

lemma find_drop_duplicates:
  "List.find (\<lambda>r. key r = k) (drop_duplicates key xs) = List.find (\<lambda>r. key r = k) xs"
  by (simp add: drop_duplicates_def dds_find)

lemma subseq_drop_duplicates: "subseq (drop_duplicates key xs) xs"
  by (simp add: drop_duplicates_def dds_subseq)

lemma set_keys_drop_duplicates: "key ` set (drop_duplicates key xs) = key ` set xs"
  by (simp add: drop_duplicates_def dds_keys)

lemma no_duplicated_rows_distinct:
  "\<forall>x\<in>set xs. length (filter (\<lambda>y. key y = key x) xs) \<le> 1 \<Longrightarrow> distinct (map key xs)"
proof (induction xs)
  case Nil
  show ?case by simp
next
  case (Cons x xs)
  have tail: "\<forall>z\<in>set xs. length (filter (\<lambda>y. key y = key z) xs) \<le> 1"
  proof
    fix z assume z: "z \<in> set xs"
    with Cons.prems have "length (filter (\<lambda>y. key y = key z) (x # xs)) \<le> 1" by simp
    then show "length (filter (\<lambda>y. key y = key z) xs) \<le> 1" by (simp split: if_splits)
  qed
  have "key x \<notin> key ` set xs"
  proof
    assume "key x \<in> key ` set xs"
    then obtain z where z: "z \<in> set xs" "key z = key x" by auto
    then have "filter (\<lambda>y. key y = key x) xs \<noteq> []" by (auto simp: filter_empty_conv)
    then have "length (filter (\<lambda>y. key y = key x) xs) \<ge> 1"
      by (cases "filter (\<lambda>y. key y = key x) xs") auto
    moreover from Cons.prems have "length (filter (\<lambda>y. key y = key x) (x # xs)) \<le> 1" by simp
    ultimately show False by simp
  qed
  with Cons.IH [OF tail] show ?case by simp
qed

lemma duplicated_rows_Nil_distinct:
  "duplicated_rows key xs = [] \<Longrightarrow> distinct (map key xs)"
  by (rule no_duplicated_rows_distinct) (auto simp: duplicated_rows_def filter_empty_conv not_less)

lemma rows_remove_duplicate_activities:
  "''activity_id'' \<in> set (columns df) \<Longrightarrow>
   rows (remove_duplicate_activities df) = drop_duplicates activity_id (rows df)"
  by (auto simp: remove_duplicate_activities_def duplicated_rows_Nil_distinct drop_duplicates_fixed)

lemma columns_remove_duplicate_activities [simp]:
  "columns (remove_duplicate_activities df) = columns df"
  by (simp add: remove_duplicate_activities_def)


lemma remove_duplicate_activities_eq:
  "''activity_id'' \<in> set (columns df) \<Longrightarrow>
   remove_duplicate_activities df = df\<lparr> rows := drop_duplicates activity_id (rows df) \<rparr>"
  by (auto simp: remove_duplicate_activities_def duplicated_rows_Nil_distinct drop_duplicates_fixed)

lemma fetch_rows_distinct:
  "''activity_id'' \<in> set (columns response) \<Longrightarrow>
   distinct (map activity_id (rows (fetch_heart_rate_zones_by_date response)))"
  by (auto simp: fetch_heart_rate_zones_by_date_def Let_def empty_frame_def
        distinct_drop_duplicates)

lemma fetch_columns:
  "''activity_id'' \<in> set (columns response) \<Longrightarrow> rows response \<noteq> [] \<Longrightarrow>
   ''activity_id'' \<in> set (columns (fetch_heart_rate_zones_by_date response))"
  by (simp add: fetch_heart_rate_zones_by_date_def Let_def)

lemma drop_duplicates_Nil [simp]: "drop_duplicates key [] = []"
  by (simp add: drop_duplicates_def)

lemma fetch_rows_exact:
  assumes "''activity_id'' \<in> set (columns response)"
  shows "rows (fetch_heart_rate_zones_by_date response)
           = drop_duplicates activity_id (rows_before_dedup response)"
proof (cases "rows response = []")
  case True
  then show ?thesis
    by (simp add: fetch_heart_rate_zones_by_date_def empty_frame_def rows_before_dedup_def)
next
  case False
  from assms have col: "''activity_id'' \<in> set (removeAll ''activities''
        (columns response @ filter (\<lambda>c. c \<notin> set (columns response))
           [''athlete_id'', ''athlete_name'', ''activity_name'', ''start_date'', ''sport_type'']))"
    by simp
  show ?thesis
  proof (cases "rows_before_dedup response = []")
    case True
    with False show ?thesis
      unfolding fetch_heart_rate_zones_by_date_def Let_def rows_before_dedup_def [symmetric]
      by simp
  next
    case ne: False
    with False col show ?thesis
      unfolding fetch_heart_rate_zones_by_date_def Let_def rows_before_dedup_def [symmetric]
      by simp
  qed
qed

text \<open>
  C3. On a frame with an activity identifier column, the duplicate check of the scoring
  engine leaves at most one row per identifier, the row it leaves for an identifier is
  the first row of the input with that identifier, the rows stay in their order, and
  checking again changes nothing. The fetch does the same to its rows: what it returns
  is exactly its flattened, named, non-Tennis rows with every row dropped whose
  identifier occurred before, so the row it returns for an identifier is the first of
  them with that identifier, in order, at most one per identifier; the duplicate check
  of the scoring engine then leaves the fetched frame as it is.
\<close>

theorem C3_deduplication:
  assumes "''activity_id'' \<in> set (columns df)"
  shows "distinct (map activity_id (rows (remove_duplicate_activities df)))
    \<and> (\<forall>k. List.find (\<lambda>r. activity_id r = k) (rows (remove_duplicate_activities df))
            = List.find (\<lambda>r. activity_id r = k) (rows df))
    \<and> subseq (rows (remove_duplicate_activities df)) (rows df)
    \<and> remove_duplicate_activities (remove_duplicate_activities df)
        = remove_duplicate_activities df
    \<and> distinct (map activity_id (rows (fetch_heart_rate_zones_by_date df)))
    \<and> remove_duplicate_activities (fetch_heart_rate_zones_by_date df)
        = fetch_heart_rate_zones_by_date df
    \<and> rows (fetch_heart_rate_zones_by_date df)
        = drop_duplicates activity_id (rows_before_dedup df)
    \<and> (\<forall>k. List.find (\<lambda>r. activity_id r = k) (rows (fetch_heart_rate_zones_by_date df))
            = List.find (\<lambda>r. activity_id r = k) (rows_before_dedup df))
    \<and> subseq (rows (fetch_heart_rate_zones_by_date df)) (rows_before_dedup df)
    \<and> activity_id ` set (rows (fetch_heart_rate_zones_by_date df))
        = activity_id ` set (rows_before_dedup df)"
proof -
  let ?out = "remove_duplicate_activities df"
  have eq: "?out = df\<lparr> rows := drop_duplicates activity_id (rows df) \<rparr>"
    using assms by (rule remove_duplicate_activities_eq)
  have d: "distinct (map activity_id (rows ?out))"
    by (simp add: eq distinct_drop_duplicates)
  have f: "\<forall>k. List.find (\<lambda>r. activity_id r = k) (rows ?out)
             = List.find (\<lambda>r. activity_id r = k) (rows df)"
    by (simp add: eq find_drop_duplicates)
  have s: "subseq (rows ?out) (rows df)"
    by (simp add: eq subseq_drop_duplicates)
  have i: "remove_duplicate_activities ?out = ?out"
    using assms by (simp add: remove_duplicate_activities_eq drop_duplicates_idem)
  let ?fetched = "fetch_heart_rate_zones_by_date df"
  have fd: "distinct (map activity_id (rows ?fetched))"
    using assms by (rule fetch_rows_distinct)
  have fi: "remove_duplicate_activities ?fetched = ?fetched"
  proof (cases "rows df = []")
    case True
    then show ?thesis
      by (simp add: fetch_heart_rate_zones_by_date_def empty_frame_def
            remove_duplicate_activities_def)
  next
    case False
    with assms have "''activity_id'' \<in> set (columns ?fetched)" by (simp add: fetch_columns)
    then show ?thesis
      by (simp add: remove_duplicate_activities_eq drop_duplicates_fixed fd)
  qed
  have fe: "rows ?fetched = drop_duplicates activity_id (rows_before_dedup df)"
    using assms by (rule fetch_rows_exact)
  have ff: "\<forall>k. List.find (\<lambda>r. activity_id r = k) (rows ?fetched)
             = List.find (\<lambda>r. activity_id r = k) (rows_before_dedup df)"
    unfolding fe by (simp add: find_drop_duplicates)
  have fs: "subseq (rows ?fetched) (rows_before_dedup df)"
    unfolding fe by (rule subseq_drop_duplicates)
  have fk: "activity_id ` set (rows ?fetched) = activity_id ` set (rows_before_dedup df)"
    unfolding fe by (rule set_keys_drop_duplicates)
  from d f s i fd fi fe ff fs fk show ?thesis by blast
qed

theorem C3_deduplication_witness:
  "''activity_id'' \<in> set (columns dup_frame)
   \<and> rows (remove_duplicate_activities dup_frame)
       = [scored_row 1 ''Ann'' 600, scored_row 2 ''Bob'' 60]
   \<and> distinct (map activity_id (rows (remove_duplicate_activities dup_frame)))
   \<and> ''activity_id'' \<in> set (columns dup_response)
   \<and> map (\<lambda>r. (activity_id r, zone_1_seconds r)) (rows_before_dedup dup_response)
       = [(Some 1, Some 600), (Some 1, Some 900), (Some 2, Some 600)]
   \<and> map (\<lambda>r. (activity_id r, zone_1_seconds r))
        (rows (fetch_heart_rate_zones_by_date dup_response))
       = [(Some 1, Some 600), (Some 2, Some 600)]"
proof -
  have h: "''activity_id'' \<in> set (columns dup_frame)"
    by (simp add: dup_frame_def hr_columns_def)
  have r: "rows (remove_duplicate_activities dup_frame)
             = [scored_row 1 ''Ann'' 600, scored_row 2 ''Bob'' 60]"
    by (simp add: remove_duplicate_activities_def dup_frame_def hr_columns_def duplicated_rows_def
          drop_duplicates_def scored_row_def hr_row0_def)
  have h2: "''activity_id'' \<in> set (columns dup_response)"
    by (simp add: dup_response_def)
  have b: "map (\<lambda>r. (activity_id r, zone_1_seconds r)) (rows_before_dedup dup_response)
       = [(Some 1, Some 600), (Some 1, Some 900), (Some 2, Some 600)]"
    by code_simp
  have e: "map (\<lambda>r. (activity_id r, zone_1_seconds r))
             (drop_duplicates activity_id (rows_before_dedup dup_response))
       = [(Some 1, Some 600), (Some 2, Some 600)]"
    by code_simp
  from C3_deduplication [OF h2] have
    "rows (fetch_heart_rate_zones_by_date dup_response)
       = drop_duplicates activity_id (rows_before_dedup dup_response)"
    by blast
  with e have e2: "map (\<lambda>r. (activity_id r, zone_1_seconds r))
        (rows (fetch_heart_rate_zones_by_date dup_response))
       = [(Some 1, Some 600), (Some 2, Some 600)]"
    by simp
  from C3_deduplication [OF h] h r h2 b e2 show ?thesis by simp
qed

section \<open>Properties of the normalisation\<close>

lemma startswith_root_decomp:
  assumes "startswith s ''root=''"
  shows "s = ''root='' @ drop 5 s"
proof -
  from assms have "take 5 s = ''root=''" by (simp add: startswith_def eval_nat_numeral)
  then have "take 5 s @ drop 5 s = ''root='' @ drop 5 s" by simp
  then show ?thesis by simp
qed

lemma startswith_append: "startswith t q \<Longrightarrow> startswith (p @ t) (p @ q)"
  by (simp add: startswith_def)

lemma endswith_append: "endswith t [c] \<Longrightarrow> endswith (p @ t) [c]"
  by (auto simp: endswith_def)

lemma startswith_prefix: "startswith s (p @ q) \<Longrightarrow> startswith s p"
proof -
  assume "startswith s (p @ q)"
  then have "take (length p + length q) s = p @ q" by (simp add: startswith_def)
  then have "take (length p) (take (length p + length q) s) = take (length p) (p @ q)" by simp
  then show ?thesis by (simp add: startswith_def min_def)
qed

lemma inner_quotes_dead:
  assumes "startswith s ''root=''" "startswith (slice_from 5 s) [c]" "endswith (slice_from 5 s) [c]"
  shows "startswith s (''root='' @ [c]) \<and> endswith s [c]"
proof -
  let ?t = "drop 5 s"
  have s: "s = ''root='' @ ?t" by (rule startswith_root_decomp [OF assms(1)])
  have a: "startswith (''root='' @ ?t) (''root='' @ [c])"
    using assms(2) unfolding slice_from_def by (rule startswith_append)
  have b: "endswith (''root='' @ ?t) [c]"
    using assms(3) unfolding slice_from_def by (rule endswith_append)
  from a b s show ?thesis by metis
qed

lemma unwrap_root_eq:
  "unwrap_root s =
     (if startswith s (''root='' @ squote) \<and> endswith s squote then slice_inner 6 s
      else if startswith s (''root='' @ dquote) \<and> endswith s dquote then slice_inner 6 s
      else if startswith s ''root='' then slice_from 5 s
      else s)"
proof (cases "startswith s ''root=''")
  case False
  then have c: "startswith s ''root='' = False" by simp
  show ?thesis unfolding unwrap_root_def by (simp only: c if_False)
next
  case C: True
  then have c: "startswith s ''root='' = True" by simp
  show ?thesis
  proof (cases "startswith s (''root='' @ squote) \<and> endswith s squote")
    case True
    then have a: "(startswith s (''root='' @ squote) \<and> endswith s squote) = True" by simp
    show ?thesis unfolding unwrap_root_def by (simp only: a if_True)
  next
    case A: False
    then have a: "(startswith s (''root='' @ squote) \<and> endswith s squote) = False" by simp
    show ?thesis
    proof (cases "startswith s (''root='' @ dquote) \<and> endswith s dquote")
      case True
      then have b: "(startswith s (''root='' @ dquote) \<and> endswith s dquote) = True" by simp
      show ?thesis unfolding unwrap_root_def by (simp only: a b if_True if_False)
    next
      case B: False
      then have b: "(startswith s (''root='' @ dquote) \<and> endswith s dquote) = False" by simp
      have "\<not> (startswith (slice_from 5 s) squote \<and> endswith (slice_from 5 s) squote)"
        using C A inner_quotes_dead [of s "CHR 0x27"] unfolding squote_def by blast
      then have d: "(startswith (slice_from 5 s) squote \<and> endswith (slice_from 5 s) squote) = False"
        by simp
      have "\<not> (startswith (slice_from 5 s) dquote \<and> endswith (slice_from 5 s) dquote)"
        using C B inner_quotes_dead [of s "CHR 0x22"] unfolding dquote_def by blast
      then have e: "(startswith (slice_from 5 s) dquote \<and> endswith (slice_from 5 s) dquote) = False"
        by simp
      show ?thesis
        unfolding unwrap_root_def Let_def by (simp only: a b c d e if_True if_False)
    qed
  qed
qed

lemma clean_field_Some:
  "clean_field (Some s) = (if unwrap_root s = ''Ride'' then Some ''Peloton'' else Some (unwrap_root s))"
  by (simp add: clean_field_def Let_def)

lemma hr_clean_Some:
  "hr_clean_activity_name (Some s) =
     (if startswith s (''root='' @ squote) \<and> endswith s squote then
        (if slice_inner 6 s = ''Ride'' then Some ''Peloton''
         else if slice_inner 6 s = ''Run'' then Some ''Treadmill'' else Some (slice_inner 6 s))
      else if startswith s ''root='' then
        (if slice_from 5 s = ''Ride'' then Some ''Peloton''
         else if slice_from 5 s = ''Run'' then Some ''Treadmill'' else Some (slice_from 5 s))
      else Some s)"
  by (simp add: hr_clean_activity_name_def Let_def)

lemma dquoted_differs:
  assumes "startswith s (''root='' @ dquote)"
  shows "slice_from 5 s \<noteq> slice_inner 6 s" "slice_from 5 s \<noteq> ''Ride''" "slice_from 5 s \<noteq> ''Run''"
   "slice_from 5 s \<noteq> ''Peloton''"
proof -
  from assms have "take 6 s = ''root='' @ dquote" by (simp add: startswith_def dquote_def eval_nat_numeral)
  then have "take 6 s @ drop 6 s = ''root='' @ dquote @ drop 6 s" by simp
  then have s: "s = ''root='' @ dquote @ drop 6 s" by simp
  have d5: "drop 5 s = dquote @ drop 6 s"
    by (subst s) (simp add: dquote_def)
  have "length (drop 5 s) = Suc (length (drop 6 s))" by (simp add: d5 dquote_def)
  moreover have "length (butlast (drop 6 s)) \<le> length (drop 6 s)" by simp
  ultimately show "slice_from 5 s \<noteq> slice_inner 6 s"
    unfolding slice_from_def slice_inner_def by (metis Suc_n_not_le_n)
  show "slice_from 5 s \<noteq> ''Ride''" "slice_from 5 s \<noteq> ''Run''" "slice_from 5 s \<noteq> ''Peloton''"
    by (simp_all add: slice_from_def d5 dquote_def)
qed

lemma hr_clean_activity_name_agrees:
  "hr_clean_activity_name (Some s) = clean_field (Some s) \<longleftrightarrow>
       (if startswith s (''root='' @ squote) \<and> endswith s squote then slice_inner 6 s \<noteq> ''Run''
        else if startswith s (''root='' @ dquote) \<and> endswith s dquote then False
        else if startswith s ''root='' then slice_from 5 s \<noteq> ''Run''
        else s \<noteq> ''Ride'')"
proof (cases "startswith s (''root='' @ squote) \<and> endswith s squote")
  case True
  then have a: "(startswith s (''root='' @ squote) \<and> endswith s squote) = True" by simp
  show ?thesis
    apply (simp only: hr_clean_Some clean_field_Some unwrap_root_eq a if_True)
    apply auto
    done
next
  case A: False
  then have a: "(startswith s (''root='' @ squote) \<and> endswith s squote) = False" by simp
  show ?thesis
  proof (cases "startswith s (''root='' @ dquote) \<and> endswith s dquote")
    case True
    then have b: "(startswith s (''root='' @ dquote) \<and> endswith s dquote) = True" by simp
    from True have "startswith s ''root=''" using startswith_prefix by blast
    then have c: "startswith s ''root='' = True" by simp
    from True have dq: "startswith s (''root='' @ dquote)" by simp
    show ?thesis
      apply (simp only: hr_clean_Some clean_field_Some unwrap_root_eq a b c if_True if_False)
      using dquoted_differs [OF dq] apply auto
      done
  next
    case B: False
    then have b: "(startswith s (''root='' @ dquote) \<and> endswith s dquote) = False" by simp
    show ?thesis
    proof (cases "startswith s ''root=''")
      case True
      then have c: "startswith s ''root='' = True" by simp
      show ?thesis
        apply (simp only: hr_clean_Some clean_field_Some unwrap_root_eq a b c if_True if_False)
        apply auto
        done
    next
      case False
      then have c: "startswith s ''root='' = False" by simp
      show ?thesis
        apply (simp only: hr_clean_Some clean_field_Some unwrap_root_eq a b c if_True if_False)
        apply auto
        done
    qed
  qed
qed

text \<open>
  C2. The normalisation inside the heart-rate-zone join is not the one of the activities
  path. The join never cleans the sport type, and its Tennis filter compares the stored
  value: a stored sport type \<^verbatim>\<open>root='Tennis'\<close> is cleaned to \<^verbatim>\<open>Tennis\<close> and the
  activity removed on the activities path, while the heart-rate-zone row of the same
  activity is returned with the wrapped sport type. On the activity name the join maps
  \<^verbatim>\<open>root=Run\<close> to \<^verbatim>\<open>Treadmill\<close> where \<^verbatim>\<open>clean_field\<close> gives \<^verbatim>\<open>Run\<close>, leaves an
  unwrapped \<^verbatim>\<open>Ride\<close> where \<^verbatim>\<open>clean_field\<close> gives \<^verbatim>\<open>Peloton\<close>, and keeps the double
  quotes of \<^verbatim>\<open>root="Yoga"\<close> where \<^verbatim>\<open>clean_field\<close> removes them.
\<close>

theorem C2_normalisation_differs:
  "fetch_activities_by_date_range [tennis_activity] = []
   \<and> map (\<lambda>r. (activity_id r, athlete_name r, activity_name r, sport_type r))
        (rows (fetch_heart_rate_zones_by_date tennis_response))
       = [(Some 9, Some ''Ann Lee'', Some ''Treadmill'',
           Some (''root='' @ squote @ ''Tennis'' @ squote))]
   \<and> clean_field (Some (''root='' @ squote @ ''Tennis'' @ squote)) = Some ''Tennis''
   \<and> clean_field (Some ''root=Run'') = Some ''Run''
   \<and> hr_clean_activity_name (Some ''root=Run'') = Some ''Treadmill''
   \<and> clean_field (Some ''Ride'') = Some ''Peloton''
   \<and> hr_clean_activity_name (Some ''Ride'') = Some ''Ride''
   \<and> clean_field (Some (''root='' @ dquote @ ''Yoga'' @ dquote)) = Some ''Yoga''
   \<and> hr_clean_activity_name (Some (''root='' @ dquote @ ''Yoga'' @ dquote))
       = Some (dquote @ ''Yoga'' @ dquote)"
  by code_simp

section \<open>Properties of the fetches\<close>

text \<open>
  C8 (as stated, refuted). On the activities path a row whose athlete join is empty is
  not dropped: it is returned with the athlete name \<^verbatim>\<open>Unknown\<close>.
\<close>

theorem C8_orphan_activity_kept:
  "raw_athletes orphan_activity = None
   \<and> map (\<lambda>r. (act_id r, act_athlete_name r, act_sport_type r))
        (fetch_activities_by_date_range [orphan_activity])
       = [(7, ''Unknown'', Some ''Peloton'')]"
  by (simp add: orphan_activity_def fetch_activities_by_date_range_def flatten_activity_def
        clean_activity_def bike_or_peloton_def positive_cell_def clean_field_def unwrap_root_def
        startswith_def endswith_def slice_from_def slice_inner_def squote_def dquote_def)


lemma dds_subset: "set (drop_duplicates_seen key seen xs) \<subseteq> set xs"
  by (induction xs arbitrary: seen) auto

lemma set_drop_duplicates_subset: "set (drop_duplicates key xs) \<subseteq> set xs"
  by (simp add: drop_duplicates_def dds_subset)

lemma fetch_hr_rows_cases:
  "rows (fetch_heart_rate_zones_by_date response) = []
   \<or> rows (fetch_heart_rate_zones_by_date response)
       = filter (\<lambda>r. sport_type r \<noteq> Some ''Tennis'')
           (filter (\<lambda>r. athlete_name r \<noteq> None)
              (map (drop_activities_column \<circ> flatten_hr_row) (rows response)))
   \<or> rows (fetch_heart_rate_zones_by_date response)
       = drop_duplicates activity_id
          (filter (\<lambda>r. sport_type r \<noteq> Some ''Tennis'')
             (filter (\<lambda>r. athlete_name r \<noteq> None)
                (map (drop_activities_column \<circ> flatten_hr_row) (rows response))))"
  by (simp add: fetch_heart_rate_zones_by_date_def Let_def empty_frame_def)

lemma fetch_hr_rows_subset:
  "set (rows (fetch_heart_rate_zones_by_date response))
     \<subseteq> {r \<in> (drop_activities_column \<circ> flatten_hr_row) ` set (rows response).
           athlete_name r \<noteq> None}"
proof -
  let ?F = "filter (\<lambda>r. sport_type r \<noteq> Some ''Tennis'')
           (filter (\<lambda>r. athlete_name r \<noteq> None)
              (map (drop_activities_column \<circ> flatten_hr_row) (rows response)))"
  have F: "set ?F \<subseteq> {r \<in> (drop_activities_column \<circ> flatten_hr_row) ` set (rows response).
           athlete_name r \<noteq> None}"
    by auto
  have D: "set (drop_duplicates activity_id ?F) \<subseteq> set ?F"
    by (rule set_drop_duplicates_subset)
  show ?thesis
    using fetch_hr_rows_cases [of response]
  proof (elim disjE)
    assume "rows (fetch_heart_rate_zones_by_date response) = []"
    then show ?thesis by simp
  next
    assume e: "rows (fetch_heart_rate_zones_by_date response) = ?F"
    show ?thesis unfolding e by (rule F)
  next
    assume e: "rows (fetch_heart_rate_zones_by_date response) = drop_duplicates activity_id ?F"
    show ?thesis unfolding e using D F by (rule subset_trans)
  qed
qed

lemma unresolved_athlete_name:
  "activities r = None \<or> (\<exists>a. activities r = Some a \<and> ha_athletes a = None) \<Longrightarrow>
   athlete_name (drop_activities_column (flatten_hr_row r)) = None"
  by (auto simp: drop_activities_column_def flatten_hr_row_def Let_def)


text \<open>
  C8 (amended). On the heart-rate-zone path every returned row has an athlete name, and
  a row with no joined activity or no joined athlete is not among the returned rows. On
  the activities path a row with no joined athlete gets the athlete name
  \<^verbatim>\<open>Unknown\<close> and, unless its sport type is cleaned to Tennis, is returned. Neither
  path raises an error.
\<close>

theorem C8_unresolved_athlete:
  "(\<forall>r \<in> set (rows (fetch_heart_rate_zones_by_date response)). athlete_name r \<noteq> None)
   \<and> (\<forall>r \<in> set (rows response).
        activities r = None \<or> (\<exists>a. activities r = Some a \<and> ha_athletes a = None) \<longrightarrow>
        drop_activities_column (flatten_hr_row r)
          \<notin> set (rows (fetch_heart_rate_zones_by_date response)))
   \<and> (\<forall>r \<in> set data.
        raw_athletes r = None \<longrightarrow>
        act_athlete_name ((bike_or_peloton \<circ> clean_activity \<circ> flatten_activity) r) = ''Unknown''
        \<and> (act_sport_type ((bike_or_peloton \<circ> clean_activity \<circ> flatten_activity) r)
              \<noteq> Some ''Tennis'' \<longrightarrow>
            (bike_or_peloton \<circ> clean_activity \<circ> flatten_activity) r
              \<in> set (fetch_activities_by_date_range data)))"
proof -
  have p1: "athlete_name r \<noteq> None"
    if "r \<in> set (rows (fetch_heart_rate_zones_by_date response))" for r
    using that fetch_hr_rows_subset [of response] by auto
  have p2: "drop_activities_column (flatten_hr_row r)
          \<notin> set (rows (fetch_heart_rate_zones_by_date response))"
    if u: "activities r = None \<or> (\<exists>a. activities r = Some a \<and> ha_athletes a = None)" for r
  proof
    assume "drop_activities_column (flatten_hr_row r)
              \<in> set (rows (fetch_heart_rate_zones_by_date response))"
    then have "athlete_name (drop_activities_column (flatten_hr_row r)) \<noteq> None" by (rule p1)
    with unresolved_athlete_name [OF u] show False by simp
  qed
  have p3: "act_athlete_name ((bike_or_peloton \<circ> clean_activity \<circ> flatten_activity) r) = ''Unknown''"
    if "raw_athletes r = None" for r
    using that by (simp add: bike_or_peloton_def clean_activity_def flatten_activity_def)
  have p4: "(bike_or_peloton \<circ> clean_activity \<circ> flatten_activity) r
              \<in> set (fetch_activities_by_date_range data)"
    if r: "r \<in> set data"
      and nt: "act_sport_type ((bike_or_peloton \<circ> clean_activity \<circ> flatten_activity) r)
               \<noteq> Some ''Tennis''" for r
  proof -
    from r have "data \<noteq> []" by auto
    with r nt show ?thesis by (simp add: fetch_activities_by_date_range_def)
  qed
  show ?thesis
    apply (intro conjI ballI impI)
       apply (erule p1)
      apply (erule p2)
     apply (erule p3)
    apply (erule p4, assumption)
    done
qed

theorem C8_unresolved_athlete_witness:
  "map athlete_name (rows (fetch_heart_rate_zones_by_date hr_response)) = [Some ''Ann Lee'']
   \<and> map activity_id (rows (fetch_heart_rate_zones_by_date hr_response)) = [Some 1]
   \<and> drop_activities_column (flatten_hr_row (joined_row 2 None))
        \<notin> set (rows (fetch_heart_rate_zones_by_date hr_response))
   \<and> (bike_or_peloton \<circ> clean_activity \<circ> flatten_activity) orphan_activity
        \<in> set (fetch_activities_by_date_range [orphan_activity])"
proof -
  have eval: "map athlete_name (rows (fetch_heart_rate_zones_by_date hr_response)) = [Some ''Ann Lee'']"
    "map activity_id (rows (fetch_heart_rate_zones_by_date hr_response)) = [Some 1]"
    by (simp_all add: fetch_heart_rate_zones_by_date_def hr_response_def joined_row_def hr_row0_def
          flatten_hr_row_def drop_activities_column_def drop_duplicates_def Let_def fmt_def
          strip_def is_space_def hr_clean_activity_name_def)
  have in1: "joined_row 2 None \<in> set (rows hr_response)" by (simp add: hr_response_def)
  have un: "activities (joined_row 2 None) = None
            \<or> (\<exists>a. activities (joined_row 2 None) = Some a \<and> ha_athletes a = None)"
    by (simp add: joined_row_def hr_row0_def)
  have orphan: "raw_athletes orphan_activity = None" by (simp add: orphan_activity_def)
  have nt: "act_sport_type ((bike_or_peloton \<circ> clean_activity \<circ> flatten_activity) orphan_activity)
              \<noteq> Some ''Tennis''"
    by (simp add: orphan_activity_def flatten_activity_def
        clean_activity_def bike_or_peloton_def positive_cell_def clean_field_def unwrap_root_def
        startswith_def endswith_def slice_from_def slice_inner_def squote_def dquote_def)
  have mem: "orphan_activity \<in> set [orphan_activity]" by simp
  note inst = C8_unresolved_athlete [of hr_response "[orphan_activity]"]
  from inst in1 un
  have n2: "drop_activities_column (flatten_hr_row (joined_row 2 None))
              \<notin> set (rows (fetch_heart_rate_zones_by_date hr_response))"
    by blast
  from inst mem orphan nt
  have b: "(bike_or_peloton \<circ> clean_activity \<circ> flatten_activity) orphan_activity
             \<in> set (fetch_activities_by_date_range [orphan_activity])"
    by blast
  from eval n2 b show ?thesis by blast
qed

section \<open>Properties of the streak calculation\<close>

lemma streak_loop_run:
  "sorted_wrt (>) ds \<Longrightarrow> \<forall>d \<in> set ds. d \<le> e \<Longrightarrow>
   \<exists>k. streak_loop ds e c = c + k \<and> (\<forall>j<k. e - int j \<in> set ds) \<and> e - int k \<notin> set ds"
proof (induction ds arbitrary: e c)
  case Nil
  show ?case by simp
next
  case (Cons d ds)
  show ?case
  proof (cases "d = e")
    case False
    with Cons.prems have "e \<notin> set (d # ds)" by fastforce
    with False show ?thesis by (intro exI [of _ 0]) simp
  next
    case True
    from Cons.prems True have srt: "sorted_wrt (>) ds" and below: "\<forall>x \<in> set ds. x \<le> e - 1"
      by auto
    from Cons.IH [OF srt below, of "c + 1"]
    obtain k where k: "streak_loop ds (e - 1) (c + 1) = c + 1 + k"
      "\<forall>j<k. e - 1 - int j \<in> set ds" "e - 1 - int k \<notin> set ds"
      by blast
    have run: "e - int j \<in> set (d # ds)" if "j < Suc k" for j
    proof (cases j)
      case 0
      with True show ?thesis by simp
    next
      case (Suc i)
      with that k(2) have "e - 1 - int i \<in> set ds" by simp
      with Suc show ?thesis by (simp add: algebra_simps)
    qed
    have stop: "e - int (Suc k) \<notin> set (d # ds)"
      using k(3) True by (simp add: algebra_simps)
    from k(1) True run stop show ?thesis
      by (intro exI [of _ "Suc k"]) simp
  qed
qed

lemma set_unique [simp]: "set (unique xs) = set xs"
  using set_keys_drop_duplicates [of "\<lambda>x. x" xs] by (simp add: unique_def)

lemma distinct_unique [simp]: "distinct (unique xs)"
  using distinct_drop_duplicates [of "\<lambda>x. x" xs] by (simp add: unique_def)

lemma sorted_dates_desc: "sorted_wrt (>) (rev (sort (unique (xs :: date list))))"
proof -
  have "sorted_wrt (<) (sort (unique xs))"
    by (simp add: strict_sorted_iff)
  then show ?thesis by (simp add: sorted_wrt_rev)
qed

lemma athlete_streak_spec:
  fixes xs :: "date list" and today :: date
  assumes "xs \<noteq> []"
  defines "s \<equiv> athlete_streak today (rev (sort (unique xs)))"
  shows "if today - Max (set xs) > 1 then s = 0
         else 1 \<le> s \<and> (\<forall>j<s. Max (set xs) - int j \<in> set xs) \<and> Max (set xs) - int s \<notin> set xs"
proof -
  let ?ds = "rev (sort (unique xs))"
  have set_ds: "set ?ds = set xs" by simp
  from assms(1) have "?ds \<noteq> []" by (metis set_ds set_empty)
  then obtain latest rest where ds: "?ds = latest # rest" by (cases ?ds) auto
  from sorted_dates_desc [of xs] have srt: "sorted_wrt (>) rest" and lt: "\<forall>d \<in> set rest. d < latest"
    unfolding ds by auto
  have set_eq: "set xs = insert latest (set rest)" using set_ds unfolding ds by simp
  have mx: "Max (set xs) = latest"
    unfolding set_eq using lt by (intro Max_eqI) (auto intro: less_imp_le)
  show ?thesis
  proof (cases "today - latest > 1")
    case True
    then show ?thesis by (simp add: s_def ds athlete_streak_def mx)
  next
    case False
    from lt have below: "\<forall>d \<in> set rest. d \<le> latest - 1" by auto
    from streak_loop_run [OF srt below, of 1]
    obtain k where k: "streak_loop rest (latest - 1) 1 = 1 + k"
      "\<forall>j<k. latest - 1 - int j \<in> set rest" "latest - 1 - int k \<notin> set rest"
      by blast
    from False k(1) have s: "s = Suc k" by (simp add: s_def ds athlete_streak_def)
    have run: "latest - int j \<in> set xs" if "j < Suc k" for j
    proof (cases j)
      case 0
      then show ?thesis by (simp add: set_eq)
    next
      case (Suc i)
      with that k(2) have "latest - 1 - int i \<in> set rest" by simp
      with Suc show ?thesis by (simp add: set_eq algebra_simps)
    qed
    have stop: "latest - int (Suc k) \<notin> set xs"
      using k(3) by (simp add: set_eq algebra_simps)
    from False run stop show ?thesis by (simp add: s mx)
  qed
qed


lemma set_athlete_dates:
  "set (map act_start_date (filter (\<lambda>r. act_athlete_name r = a) rs)) = activity_dates rs a"
  by (auto simp: activity_dates_def)

text \<open>
  C5. For an athlete with an activity in a frame that has the start date and athlete
  name columns, the function returns a streak for the athlete. When the most recent
  activity date is more than one day before today the streak is 0. Otherwise the streak
  is at least 1, every one of that many days counted back from the most recent date has
  an activity, and the next day back has none. The dates today, today - 1, today - 2
  give 3, the single date today - 3 gives 0, and the single date today - 1 gives 1.
\<close>

theorem C5_streak:
  assumes "''start_date'' \<in> set (columns df)" and "''athlete_name'' \<in> set (columns df)"
    and "r \<in> set (rows df)"
  shows "(\<exists>streaks s.
            calculate_athlete_streaks today df = Inr streaks
            \<and> map_of streaks (act_athlete_name r) = Some s
            \<and> (if today - Max (activity_dates (rows df) (act_athlete_name r)) > 1 then s = 0
               else 1 \<le> s
                 \<and> (\<forall>j<s. Max (activity_dates (rows df) (act_athlete_name r)) - int j
                            \<in> activity_dates (rows df) (act_athlete_name r))
                 \<and> Max (activity_dates (rows df) (act_athlete_name r)) - int s
                            \<notin> activity_dates (rows df) (act_athlete_name r)))
    \<and> athlete_streak today (rev (sort (unique [today, today - 1, today - 2]))) = 3
    \<and> athlete_streak today (rev (sort (unique [today - 3]))) = 0
    \<and> athlete_streak today (rev (sort (unique [today - 1]))) = 1"
proof -
  let ?a = "act_athlete_name r"
  let ?xs = "map act_start_date (filter (\<lambda>r. act_athlete_name r = ?a) (rows df))"
  let ?streaks = "map (\<lambda>a. (a, athlete_streak today (athlete_dates_of (rows df) a)))
                    (unique (map act_athlete_name (rows df)))"
  from assms have ne: "\<not> df_empty df" by (auto simp: df_empty_def)
  with assms have res: "calculate_athlete_streaks today df = Inr ?streaks"
    by (simp add: calculate_athlete_streaks_def)
  from assms(3) have "?a \<in> set (unique (map act_athlete_name (rows df)))" by simp
  then have look: "map_of ?streaks ?a = Some (athlete_streak today (athlete_dates_of (rows df) ?a))"
    by (simp add: map_of_map_restrict)
  from assms(3) have "?xs \<noteq> []" by (auto simp: filter_empty_conv)
  from athlete_streak_spec [OF this, of today]
  have spec: "if today - Max (activity_dates (rows df) ?a) > 1
      then athlete_streak today (athlete_dates_of (rows df) ?a) = 0
      else 1 \<le> athlete_streak today (athlete_dates_of (rows df) ?a)
        \<and> (\<forall>j<athlete_streak today (athlete_dates_of (rows df) ?a).
              Max (activity_dates (rows df) ?a) - int j \<in> activity_dates (rows df) ?a)
        \<and> Max (activity_dates (rows df) ?a)
            - int (athlete_streak today (athlete_dates_of (rows df) ?a))
              \<notin> activity_dates (rows df) ?a"
    unfolding set_athlete_dates athlete_dates_of_def .
  have ex: "athlete_streak today (rev (sort (unique [today, today - 1, today - 2]))) = 3"
    "athlete_streak today (rev (sort (unique [today - 3]))) = 0"
    "athlete_streak today (rev (sort (unique [today - 1]))) = 1"
    by (simp_all add: unique_def drop_duplicates_def athlete_streak_def)
  from res look spec ex show ?thesis by blast
qed

theorem C5_streak_witness:
  "''start_date'' \<in> set (columns streak_frame)
   \<and> ''athlete_name'' \<in> set (columns streak_frame)
   \<and> activity_on ''Ann'' 98 \<in> set (rows streak_frame)
   \<and> calculate_athlete_streaks 100 streak_frame = Inr [(''Ann'', 3), (''Bob'', 0)]
   \<and> calculate_athlete_streaks 98 streak_frame = Inr [(''Ann'', 3), (''Bob'', 1)]"
proof -
  have h: "''start_date'' \<in> set (columns streak_frame)"
    "''athlete_name'' \<in> set (columns streak_frame)"
    "activity_on ''Ann'' 98 \<in> set (rows streak_frame)"
    by (simp_all add: streak_frame_def)
  have e: "calculate_athlete_streaks 100 streak_frame = Inr [(''Ann'', 3), (''Bob'', 0)]"
    "calculate_athlete_streaks 98 streak_frame = Inr [(''Ann'', 3), (''Bob'', 1)]"
    by (simp_all add: calculate_athlete_streaks_def streak_frame_def df_empty_def activity_on_def
          athlete_dates_of_def unique_def drop_duplicates_def athlete_streak_def)
  from C5_streak [OF h, of 100] h e show ?thesis by blast
qed

section \<open>Properties of the scoring engine\<close>

lemma zone_names:
  "zone_seconds_name 1 = ''zone_1_seconds''" "zone_seconds_name 2 = ''zone_2_seconds''"
  "zone_seconds_name 3 = ''zone_3_seconds''" "zone_seconds_name 4 = ''zone_4_seconds''"
  "zone_seconds_name 5 = ''zone_5_seconds''"
  "zone_time_name 1 = ''zone_1_time''" "zone_time_name 2 = ''zone_2_time''"
  "zone_time_name 3 = ''zone_3_time''" "zone_time_name 4 = ''zone_4_time''"
  "zone_time_name 5 = ''zone_5_time''"
  "zone_seconds_name (Suc 0) = ''zone_1_seconds''" "zone_time_name (Suc 0) = ''zone_1_time''"
  by (simp_all add: zone_seconds_name_def zone_time_name_def str_nat.simps digit_char_def)

lemma df_get_zone_hr_columns:
  "df_get_zone hr_columns 1 = Some (zone_seconds_cell 1)"
  "df_get_zone hr_columns 2 = Some (zone_seconds_cell 2)"
  "df_get_zone hr_columns 3 = Some (zone_seconds_cell 3)"
  "df_get_zone hr_columns 4 = Some (zone_seconds_cell 4)"
  "df_get_zone hr_columns 5 = Some (zone_seconds_cell 5)"
  "df_get_zone hr_columns (Suc 0) = Some (zone_seconds_cell 1)"
  by (simp_all add: df_get_zone_def zone_names hr_columns_def)

lemma zone_points_column_hr_columns:
  "zone_points_column hr_columns
     = Inr (\<lambda>r. fillna0 (zone_1_seconds r) / 60 * 1 + fillna0 (zone_2_seconds r) / 60 * 2
                 + fillna0 (zone_3_seconds r) / 60 * 3 + fillna0 (zone_4_seconds r) / 60 * 4
                 + fillna0 (zone_5_seconds r) / 60 * 5)"
  by (simp add: zone_points_column_def df_get_zone_hr_columns zone_seconds_cell_def)

text \<open>
  C1. On a frame that has the five \<^verbatim>\<open>zone_i_seconds\<close> columns the points of a record are
  the sum over the zones 1 to 5 of the seconds of the zone, a null cell counting as zero,
  divided by 60 and multiplied by the weight 1, 2, 3, 4, 5 of the zone; a record with 600
  seconds in zone 1 and zero or null in the other zones gives 10 points. A missing zone
  field is not treated as zero: on a frame that has neither \<^verbatim>\<open>zone_2_seconds\<close> nor
  \<^verbatim>\<open>zone_2_time\<close>, \<^verbatim>\<open>df.get\<close> returns the integer 0 and \<^verbatim>\<open>.fillna\<close> raises
  \<^verbatim>\<open>AttributeError\<close>.
\<close>

theorem C1_zone_points:
  "zone_points_column hr_columns
     = Inr (\<lambda>r. fillna0 (zone_1_seconds r) / 60 * 1 + fillna0 (zone_2_seconds r) / 60 * 2
                 + fillna0 (zone_3_seconds r) / 60 * 3 + fillna0 (zone_4_seconds r) / 60 * 4
                 + fillna0 (zone_5_seconds r) / 60 * 5)
   \<and> fillna0 None = 0
   \<and> map (\<lambda>p. (ap_athlete_name p, zone_points p, activity_count p))
        (projr (calculate_hr_zone_points (points_frame [scored_row 1 ''Ann'' 600])))
       = [(''Ann'', 10, 1)]
   \<and> map (\<lambda>p. (ap_athlete_name p, zone_points p, activity_count p))
        (projr (calculate_hr_zone_points
           (points_frame [hr_row0\<lparr> activity_id := Some 1, athlete_name := Some ''Ann'',
                                   zone_1_seconds := Some 600 \<rparr>])))
       = [(''Ann'', 10, 1)]
   \<and> zone_points_column (columns no_zone2_frame) = Inl AttributeError
   \<and> calculate_hr_zone_points no_zone2_frame = Inl AttributeError"
proof -
  have a: "fillna0 None = 0" by (simp add: fillna0_def)
  have b: "map (\<lambda>p. (ap_athlete_name p, zone_points p, activity_count p))
        (projr (calculate_hr_zone_points (points_frame [scored_row 1 ''Ann'' 600])))
       = [(''Ann'', 10, 1)]" by code_simp
  have c: "map (\<lambda>p. (ap_athlete_name p, zone_points p, activity_count p))
        (projr (calculate_hr_zone_points
           (points_frame [hr_row0\<lparr> activity_id := Some 1, athlete_name := Some ''Ann'',
                                   zone_1_seconds := Some 600 \<rparr>])))
       = [(''Ann'', 10, 1)]" by code_simp
  have d: "zone_points_column (columns no_zone2_frame) = Inl AttributeError"
    by (simp add: zone_points_column_def df_get_zone_def zone_names no_zone2_frame_def)
  have e: "calculate_hr_zone_points no_zone2_frame = Inl AttributeError" by code_simp
  from zone_points_column_hr_columns a b c d e show ?thesis by (intro conjI)
qed

lemma double_zones_keys [simp]:
  "athlete_name (double_zones r) = athlete_name r" "activity_id (double_zones r) = activity_id r"
  by (simp_all add: double_zones_def)

lemma double_cells:
  "fillna0 (zone_seconds_cell i (double_zones r)) = 2 * fillna0 (zone_seconds_cell i r)"
  "fillna0 (zone_time_cell i (double_zones r)) = 2 * fillna0 (zone_time_cell i r)"
  by (simp_all add: zone_seconds_cell_def zone_time_cell_def double_zones_def double_cell_def
        fillna0_def split: option.split)

lemma df_get_zone_double:
  assumes "df_get_zone cols i = Some z"
  shows "fillna0 (z (double_zones r)) = 2 * fillna0 (z r)"
  using assms double_cells [of i r] by (auto simp: df_get_zone_def split: if_splits)

lemma zone_points_column_Inr:
  assumes "zone_points_column cols = Inr pts"
  obtains z1 z2 z3 z4 z5 where
    "df_get_zone cols 1 = Some z1" "df_get_zone cols 2 = Some z2" "df_get_zone cols 3 = Some z3"
    "df_get_zone cols 4 = Some z4" "df_get_zone cols 5 = Some z5"
    "pts = (\<lambda>r. fillna0 (z1 r) / 60 * 1 + fillna0 (z2 r) / 60 * 2 + fillna0 (z3 r) / 60 * 3
                   + fillna0 (z4 r) / 60 * 4 + fillna0 (z5 r) / 60 * 5)"
  using assms unfolding zone_points_column_def by (auto split: option.splits)

lemma zone_points_column_double:
  assumes "zone_points_column cols = Inr pts"
  shows "pts (double_zones r) = 2 * pts r"
proof -
  from assms obtain z1 z2 z3 z4 z5 where
    z: "df_get_zone cols 1 = Some z1" "df_get_zone cols 2 = Some z2" "df_get_zone cols 3 = Some z3"
    "df_get_zone cols 4 = Some z4" "df_get_zone cols 5 = Some z5"
    and p: "pts = (\<lambda>r. fillna0 (z1 r) / 60 * 1 + fillna0 (z2 r) / 60 * 2 + fillna0 (z3 r) / 60 * 3
                   + fillna0 (z4 r) / 60 * 4 + fillna0 (z5 r) / 60 * 5)"
    by (rule zone_points_column_Inr)
  show ?thesis
    unfolding p
    by (simp add: df_get_zone_double [OF z(1)] df_get_zone_double [OF z(2)]
          df_get_zone_double [OF z(3)] df_get_zone_double [OF z(4)] df_get_zone_double [OF z(5)])
qed

lemma dds_map:
  assumes "\<And>x. key (f x) = key x"
  shows "drop_duplicates_seen key seen (map f xs) = map f (drop_duplicates_seen key seen xs)"
  by (induction xs arbitrary: seen) (simp_all add: assms)

lemma drop_duplicates_map:
  assumes "\<And>x. key (f x) = key x"
  shows "drop_duplicates key (map f xs) = map f (drop_duplicates key xs)"
  using assms by (simp add: drop_duplicates_def dds_map)

lemma duplicated_rows_map:
  assumes "\<And>x. key (f x) = key x"
  shows "duplicated_rows key (map f xs) = map f (duplicated_rows key xs)"
  by (simp add: duplicated_rows_def filter_map comp_def assms)

lemma double_if_keys [simp]:
  "athlete_name (double_if a r) = athlete_name r" "activity_id (double_if a r) = activity_id r"
  by (simp_all add: double_if_def)

lemma double_athlete_simps [simp]:
  "columns (double_athlete a df) = columns df"
  "rows (double_athlete a df) = map (double_if a) (rows df)"
  by (simp_all add: double_athlete_def)

lemma double_athlete_rows_update:
  "(double_athlete a df)\<lparr> rows := rs \<rparr> = df\<lparr> rows := rs \<rparr>"
  "df\<lparr> rows := map (double_if a) rs \<rparr> = double_athlete a (df\<lparr> rows := rs \<rparr>)"
  by (simp_all add: double_athlete_def)

lemma rda_double:
  "remove_duplicate_activities (double_athlete a df)
     = double_athlete a (remove_duplicate_activities df)"
  by (simp add: remove_duplicate_activities_def duplicated_rows_map drop_duplicates_map
        double_athlete_rows_update)

lemma filter_named_double:
  "filter (\<lambda>r. athlete_name r \<noteq> None) (map (double_if a) rs)
     = map (double_if a) (filter (\<lambda>r. athlete_name r \<noteq> None) rs)"
  by (induction rs) simp_all

lemma scored_frame_double:
  "scored_frame (double_athlete a df) = map_option (double_athlete a) (scored_frame df)"
proof -
  let ?N = "\<lambda>rs. filter (\<lambda>r. athlete_name r \<noteq> None) rs"
  have e: "df_empty (double_athlete a df) = df_empty df"
    by (simp add: df_empty_def)
  have u: "(double_athlete a df)\<lparr> rows := ?N (rows (double_athlete a df)) \<rparr>
             = double_athlete a (df\<lparr> rows := ?N (rows df) \<rparr>)"
    by (simp only: double_athlete_simps filter_named_double double_athlete_rows_update)
  have e1: "df_empty (double_athlete a (df\<lparr> rows := ?N (rows df) \<rparr>))
             = df_empty (df\<lparr> rows := ?N (rows df) \<rparr>)"
    by (simp add: df_empty_def)
  have c: "columns (double_athlete a df) = columns df" by simp
  show ?thesis
    unfolding scored_frame_def Let_def u e e1 c rda_double
    by (simp only: option.map if_distrib [of "map_option (double_athlete a)"])
qed

lemma group_keys_double: "group_keys (map (double_if a) rs) = group_keys rs"
proof -
  have "List.map_filter athlete_name (map (double_if a) rs) = List.map_filter athlete_name rs"
    by (induction rs) (simp_all add: List.map_filter_simps split: option.split)
  then show ?thesis by (simp add: group_keys_def)
qed

lemma group_rows_double:
  "group_rows (map (double_if a) rs) k
     = (if k = a then map double_zones (group_rows rs k) else group_rows rs k)"
  unfolding group_rows_def by (induction rs) (auto simp: double_if_def)

lemma groupby_agg_names: "map ap_athlete_name (groupby_agg cols pts rs) = group_keys rs"
  by (simp add: groupby_agg_def comp_def Let_def)

lemma groupby_agg_points:
  "map zone_points (groupby_agg cols pts rs)
     = map (\<lambda>k. sum_list (map pts (group_rows rs k))) (group_keys rs)"
  by (simp add: groupby_agg_def comp_def Let_def)

lemma groupby_agg_counts:
  "map activity_count (groupby_agg cols pts rs)
     = map (\<lambda>k. length (filter (\<lambda>r. activity_id r \<noteq> None) (group_rows rs k))) (group_keys rs)"
  by (simp add: groupby_agg_def comp_def Let_def)

lemma sum_points_double:
  fixes pts :: "hr_row \<Rightarrow> rat"
  assumes "\<forall>r. pts (double_zones r) = 2 * pts r"
  shows "sum_list (map pts (map double_zones grp)) = 2 * sum_list (map pts grp)"
  using assms by (induction grp) (simp_all add: algebra_simps)

lemma count_double:
  "length (filter (\<lambda>r. activity_id r \<noteq> None) (map double_zones grp))
     = length (filter (\<lambda>r. activity_id r \<noteq> None) grp)"
  by (induction grp) simp_all

lemma groupby_agg_double:
  assumes "\<forall>r. pts (double_zones r) = 2 * pts r"
  shows "map zone_points (groupby_agg cols pts (map (double_if a) rs))
     = map (\<lambda>p. if ap_athlete_name p = a then 2 * zone_points p else zone_points p)
         (groupby_agg cols pts rs)"
proof -
  have "map zone_points (groupby_agg cols pts (map (double_if a) rs))
      = map (\<lambda>k. if k = a then 2 * sum_list (map pts (group_rows rs k))
                    else sum_list (map pts (group_rows rs k))) (group_keys rs)"
    unfolding groupby_agg_points group_keys_double group_rows_double
    using sum_points_double [OF assms] by (intro map_cong) simp_all
  also have "\<dots> = map (\<lambda>p. if ap_athlete_name p = a then 2 * zone_points p else zone_points p)
         (groupby_agg cols pts rs)"
    by (simp add: groupby_agg_def comp_def Let_def)
  finally show ?thesis .
qed

lemma groupby_agg_count_double:
  "map activity_count (groupby_agg cols pts (map (double_if a) rs))
     = map activity_count (groupby_agg cols pts rs)"
  unfolding groupby_agg_counts group_keys_double group_rows_double
  by (intro map_cong) (simp_all add: filter_map comp_def)

lemma grouped_points_double:
  assumes "grouped_points df = Inr g"
  shows "\<exists>g'. grouped_points (double_athlete a df) = Inr g'
           \<and> map ap_athlete_name g' = map ap_athlete_name g
           \<and> map activity_count g' = map activity_count g
           \<and> map zone_points g'
               = map (\<lambda>p. if ap_athlete_name p = a then 2 * zone_points p else zone_points p) g"
proof (cases "scored_frame df")
  case None
  with assms have "g = []" by (simp add: grouped_points_def)
  with None show ?thesis by (simp add: grouped_points_def scored_frame_double)
next
  case (Some df2)
  with assms obtain pts where pts: "zone_points_column (columns df2) = Inr pts"
    and col: "''activity_id'' \<in> set (columns df2)"
    and g: "g = groupby_agg (columns df2) pts (rows df2)"
    by (auto simp: grouped_points_def split: sum.splits if_splits)
  have d: "\<forall>r. pts (double_zones r) = 2 * pts r"
    using zone_points_column_double [OF pts] by simp
  have "grouped_points (double_athlete a df)
          = Inr (groupby_agg (columns df2) pts (map (double_if a) (rows df2)))"
    by (simp add: grouped_points_def scored_frame_double Some pts col)
  then show ?thesis
    by (simp add: g groupby_agg_names group_keys_double groupby_agg_double [OF d]
          groupby_agg_count_double)
qed

lemma grouped_points_double_error:
  assumes "grouped_points df = Inl e"
  shows "grouped_points (double_athlete a df) = Inl e"
proof (cases "scored_frame df")
  case None
  with assms show ?thesis by (simp add: grouped_points_def)
next
  case (Some df2)
  with assms show ?thesis
    by (auto simp: grouped_points_def scored_frame_double split: sum.splits if_splits)
qed

lemma set_sort_values_desc: "set (sort_values_desc ps) = set ps"
  by (simp add: sort_values_desc_def)

lemma round_half_even_0: "round_half_even 0 = 0"
  by (simp add: round_half_even_def)

lemma round_points_simps:
  "zone_points (round_points p) = round_half_even (zone_points p)"
  "ap_athlete_name (round_points p) = ap_athlete_name p"
  "activity_count (round_points p) = activity_count p"
  by (simp_all add: round_points_def)

lemma zero_zones_cell:
  assumes "zero_zones r" "df_get_zone cols i = Some z" "1 \<le> i" "i < 6"
  shows "fillna0 (z r) = 0"
proof -
  from assms(1) have "\<forall>i \<in> set [1 ..< 6].
      fillna0 (zone_seconds_cell i r) = 0 \<and> fillna0 (zone_time_cell i r) = 0"
    unfolding zero_zones_def list_all_iff .
  with assms(3,4) have "fillna0 (zone_seconds_cell i r) = 0 \<and> fillna0 (zone_time_cell i r) = 0"
    by simp
  with assms(2) show ?thesis by (auto simp: df_get_zone_def split: if_splits)
qed

lemma zone_points_column_zero:
  assumes "zone_points_column cols = Inr pts" "zero_zones r"
  shows "pts r = 0"
proof -
  from assms(1) obtain z1 z2 z3 z4 z5 where
    z: "df_get_zone cols 1 = Some z1" "df_get_zone cols 2 = Some z2" "df_get_zone cols 3 = Some z3"
    "df_get_zone cols 4 = Some z4" "df_get_zone cols 5 = Some z5"
    and p: "pts = (\<lambda>r. fillna0 (z1 r) / 60 * 1 + fillna0 (z2 r) / 60 * 2 + fillna0 (z3 r) / 60 * 3
                   + fillna0 (z4 r) / 60 * 4 + fillna0 (z5 r) / 60 * 5)"
    by (rule zone_points_column_Inr)
  have "fillna0 (z1 r) = 0" "fillna0 (z2 r) = 0" "fillna0 (z3 r) = 0" "fillna0 (z4 r) = 0"
    "fillna0 (z5 r) = 0"
    using zero_zones_cell [OF assms(2) z(1)] zero_zones_cell [OF assms(2) z(2)]
      zero_zones_cell [OF assms(2) z(3)] zero_zones_cell [OF assms(2) z(4)]
      zero_zones_cell [OF assms(2) z(5)] by simp_all
  then show ?thesis unfolding p by simp
qed

lemma scored_frame_rows_subset:
  assumes "scored_frame df = Some df2"
  shows "set (rows df2) \<subseteq> set (rows df)"
proof -
  let ?df1 = "df\<lparr> rows := filter (\<lambda>r. athlete_name r \<noteq> None) (rows df) \<rparr>"
  from assms have e: "df2 = remove_duplicate_activities ?df1"
    by (simp add: scored_frame_def Let_def split: if_splits)
  have "set (rows (remove_duplicate_activities ?df1)) \<subseteq> set (rows ?df1)"
    using set_drop_duplicates_subset [of activity_id "rows ?df1"]
    by (simp add: remove_duplicate_activities_def)
  then show ?thesis unfolding e by auto
qed

lemma sum_list_zero:
  fixes pts :: "hr_row \<Rightarrow> rat"
  assumes "\<forall>r \<in> set grp. pts r = 0"
  shows "sum_list (map pts grp) = 0"
  using assms by (induction grp) simp_all

lemma grouped_points_zero:
  assumes "grouped_points df = Inr g" "list_all zero_zones (rows df)"
  shows "list_all (\<lambda>p. zone_points p = 0) g"
proof (cases "scored_frame df")
  case None
  with assms(1) show ?thesis by (simp add: grouped_points_def)
next
  case (Some df2)
  with assms(1) obtain pts where pts: "zone_points_column (columns df2) = Inr pts"
    and g: "g = groupby_agg (columns df2) pts (rows df2)"
    by (auto simp: grouped_points_def split: sum.splits if_splits)
  have z: "\<forall>r \<in> set (rows df2). pts r = 0"
    using scored_frame_rows_subset [OF Some] assms(2) zone_points_column_zero [OF pts]
    by (auto simp: list_all_iff)
  have "\<forall>k. sum_list (map pts (group_rows (rows df2) k)) = 0"
    using z by (intro allI sum_list_zero) (simp add: group_rows_def)
  then show ?thesis
    by (simp add: g groupby_agg_def list_all_iff Let_def)
qed

text \<open>
  C9 (as stated, refuted). The total that is returned is rounded to a whole number: an
  athlete with one record of 40 seconds in zone 1 has the total 1, and with every zone
  time doubled (80 seconds) the total is 1 again, not 2.
\<close>

theorem C9_rounded_total_not_doubled:
  "rows (double_athlete ''Ann'' (points_frame [scored_row 1 ''Ann'' 40]))
     = [scored_row 1 ''Ann'' 80]
   \<and> map (\<lambda>p. (ap_athlete_name p, zone_points p))
        (projr (calculate_hr_zone_points (points_frame [scored_row 1 ''Ann'' 40])))
       = [(''Ann'', 1)]
   \<and> map (\<lambda>p. (ap_athlete_name p, zone_points p))
        (projr (calculate_hr_zone_points
           (double_athlete ''Ann'' (points_frame [scored_row 1 ''Ann'' 40]))))
       = [(''Ann'', 1)]"
  by code_simp

text \<open>
  C9 (amended). When scoring returns, it also returns after every zone-time cell of the
  records of one athlete has been doubled; the sum of points of that athlete before
  rounding is doubled, the sums of the other athletes, the athlete names and the activity
  counts are unchanged; the total that is returned is the sum rounded to a whole number,
  a half to the even neighbour. When every zone-time cell of the frame is zero or null,
  every athlete has the sum zero and the returned total zero.
\<close>

theorem C9_scoring_linear:
  assumes "grouped_points df = Inr g"
  shows "(\<exists>g'. grouped_points (double_athlete a df) = Inr g'
            \<and> map ap_athlete_name g' = map ap_athlete_name g
            \<and> map activity_count g' = map activity_count g
            \<and> map zone_points g'
                = map (\<lambda>p. if ap_athlete_name p = a then 2 * zone_points p else zone_points p) g
            \<and> calculate_hr_zone_points (double_athlete a df)
                = Inr (sort_values_desc (map round_points g')))
         \<and> calculate_hr_zone_points df = Inr (sort_values_desc (map round_points g))
         \<and> (\<forall>p. zone_points (round_points p) = round_half_even (zone_points p)
                \<and> ap_athlete_name (round_points p) = ap_athlete_name p)
         \<and> (list_all zero_zones (rows df) \<longrightarrow>
               list_all (\<lambda>p. zone_points p = 0) g
               \<and> list_all (\<lambda>p. zone_points p = 0) (sort_values_desc (map round_points g)))"
proof -
  from grouped_points_double [OF assms, of a] obtain g' where
    g': "grouped_points (double_athlete a df) = Inr g'"
      "map ap_athlete_name g' = map ap_athlete_name g"
      "map activity_count g' = map activity_count g"
      "map zone_points g'
         = map (\<lambda>p. if ap_athlete_name p = a then 2 * zone_points p else zone_points p) g"
    by blast
  have c': "calculate_hr_zone_points (double_athlete a df)
              = Inr (sort_values_desc (map round_points g'))"
    by (simp add: calculate_hr_zone_points_def g'(1))
  have c: "calculate_hr_zone_points df = Inr (sort_values_desc (map round_points g))"
    by (simp add: calculate_hr_zone_points_def assms)
  have z: "list_all (\<lambda>p. zone_points p = 0) g
           \<and> list_all (\<lambda>p. zone_points p = 0) (sort_values_desc (map round_points g))"
    if h: "list_all zero_zones (rows df)"
  proof -
    have a: "list_all (\<lambda>p. zone_points p = 0) g"
      by (rule grouped_points_zero [OF assms h])
    then have "list_all (\<lambda>p. zone_points p = 0) (sort_values_desc (map round_points g))"
      by (auto simp: list_all_iff set_sort_values_desc round_points_simps round_half_even_0)
    with a show ?thesis by simp
  qed
  from g' c' have e: "\<exists>g'. grouped_points (double_athlete a df) = Inr g'
            \<and> map ap_athlete_name g' = map ap_athlete_name g
            \<and> map activity_count g' = map activity_count g
            \<and> map zone_points g'
                = map (\<lambda>p. if ap_athlete_name p = a then 2 * zone_points p else zone_points p) g
            \<and> calculate_hr_zone_points (double_athlete a df)
                = Inr (sort_values_desc (map round_points g'))"
    by blast
  from e c z show ?thesis by (simp add: round_points_simps)
qed

theorem C9_scoring_linear_witness:
  "grouped_points small_frame = Inr (projr (grouped_points small_frame))
   \<and> map (\<lambda>p. (ap_athlete_name p, zone_points p)) (projr (grouped_points small_frame))
       = [(''Ann'', 2 / 3), (''Bob'', 1)]
   \<and> map ap_athlete_name (projr (grouped_points (double_athlete ''Ann'' small_frame)))
       = [''Ann'', ''Bob'']
   \<and> map zone_points (projr (grouped_points (double_athlete ''Ann'' small_frame)))
       = [4 / 3, 1]
   \<and> grouped_points zero_frame = Inr (projr (grouped_points zero_frame))
   \<and> list_all zero_zones (rows zero_frame)
   \<and> list_all (\<lambda>p. zone_points p = 0) (projr (calculate_hr_zone_points zero_frame))
   \<and> map (\<lambda>p. (ap_athlete_name p, zone_points p))
        (projr (calculate_hr_zone_points zero_frame))
       = [(''Ann'', 0), (''Bob'', 0)]"
proof -
  have h: "grouped_points small_frame = Inr (projr (grouped_points small_frame))"
    by code_simp
  have v: "map (\<lambda>p. (ap_athlete_name p, zone_points p)) (projr (grouped_points small_frame))
       = [(''Ann'', 2 / 3), (''Bob'', 1)]"
    by code_simp
  have n: "map ap_athlete_name (projr (grouped_points small_frame)) = [''Ann'', ''Bob'']"
    by code_simp
  have d: "map (\<lambda>p. if ap_athlete_name p = ''Ann'' then 2 * zone_points p else zone_points p)
             (projr (grouped_points small_frame)) = [4 / 3, 1]"
    by code_simp
  from C9_scoring_linear [OF h, of "''Ann''"] obtain g' where
    g': "grouped_points (double_athlete ''Ann'' small_frame) = Inr g'"
      "map ap_athlete_name g' = map ap_athlete_name (projr (grouped_points small_frame))"
      "map zone_points g'
         = map (\<lambda>p. if ap_athlete_name p = ''Ann'' then 2 * zone_points p else zone_points p)
             (projr (grouped_points small_frame))"
    by blast
  have w1: "map ap_athlete_name (projr (grouped_points (double_athlete ''Ann'' small_frame)))
       = [''Ann'', ''Bob'']"
    by (simp only: g'(1) sum.sel g'(2) n)
  have w2: "map zone_points (projr (grouped_points (double_athlete ''Ann'' small_frame)))
       = [4 / 3, 1]"
    by (simp only: g'(1) sum.sel g'(3) d)
  have hz: "grouped_points zero_frame = Inr (projr (grouped_points zero_frame))"
    by code_simp
  have zz: "list_all zero_zones (rows zero_frame)"
    by code_simp
  have zo: "map (\<lambda>p. (ap_athlete_name p, zone_points p))
        (projr (calculate_hr_zone_points zero_frame))
       = [(''Ann'', 0), (''Bob'', 0)]"
    by code_simp
  from C9_scoring_linear [OF hz, of "''Ann''"] zz have
    "calculate_hr_zone_points zero_frame
       = Inr (sort_values_desc (map round_points (projr (grouped_points zero_frame))))"
    "list_all (\<lambda>p. zone_points p = 0)
       (sort_values_desc (map round_points (projr (grouped_points zero_frame))))"
    by blast+
  then have za: "list_all (\<lambda>p. zone_points p = 0) (projr (calculate_hr_zone_points zero_frame))"
    by (simp only: sum.sel)
  from h v w1 w2 hz zz za zo show ?thesis by (intro conjI)
qed













end
